theory Spec2Isabelle
  imports Complex_Main "HOL-Library.Multiset" "HOL-Library.Sublist"
begin

section \<open>Conventions of the embedding\<close>

text \<open>
  The repository is Python. Its values are embedded as follows.
  \<^item> A Python \<open>str\<close> is a \<^typ>\<open>string\<close>; each \<^typ>\<open>char\<close> stands for one code point
    below 256, so \<open>len\<close> is \<^const>\<open>length\<close>.
  \<^item> A Python \<open>int\<close> is an \<^typ>\<open>int\<close> (a \<^typ>\<open>nat\<close> where the code only counts).
  \<^item> A Python \<open>float\<close> is a \<^typ>\<open>real\<close>: rounding, overflow and NaN are not part of
    the model, and \<open>math.log1p x\<close> is \<open>ln (1 + x)\<close>. The power \<open>0.5 ** x\<close> of
    \<open>recency_score\<close> is modelled with its underflow to zero.
  \<^item> A value that may be \<open>None\<close> is an \<open>option\<close>.
  \<^item> A dictionary is a map, or a record when its keys are fixed.
  \<^item> A raised exception is a value \<open>Exc type message\<close>, returned on the left of a sum.
\<close>

datatype exc = Exc (exc_type: string) (exc_msg: string)

text \<open>
  A JSON object, one line of a JSONL file, is a map from its keys to strings; the fields
  the code reads are strings.
\<close>

type_synonym json_obj = "string \<rightharpoonup> string"

section \<open>Python string operations\<close>

text \<open>
  The methods of \<open>str\<close> that the repository calls, on code points below 256.
  \<open>str.lower\<close> maps \<open>A..Z\<close> and the upper-case letters of Latin-1 (192 to 222 except
  the multiplication sign 215) to the code point 32 above.
\<close>

definition lower_char :: "char \<Rightarrow> char" where
  "lower_char c =
     (let n = (of_char c :: nat)
      in if (65 \<le> n \<and> n \<le> 90) \<or> (192 \<le> n \<and> n \<le> 222 \<and> n \<noteq> 215)
         then char_of (n + 32) else c)"

definition str_lower :: "string \<Rightarrow> string" where
  "str_lower s = map lower_char s"

text \<open>\<open>str.isspace\<close> on one code point below 256, the set that \<open>str.strip()\<close> removes.\<close>

definition is_space :: "char \<Rightarrow> bool" where
  "is_space c = ((of_char c :: nat) \<in> {9, 10, 11, 12, 13, 28, 29, 30, 31, 32, 133, 160})"

definition lstrip_by :: "(char \<Rightarrow> bool) \<Rightarrow> string \<Rightarrow> string" where
  "lstrip_by p s = dropWhile p s"

definition rstrip_by :: "(char \<Rightarrow> bool) \<Rightarrow> string \<Rightarrow> string" where
  "rstrip_by p s = rev (dropWhile p (rev s))"

definition strip :: "string \<Rightarrow> string" where
  "strip s = rstrip_by is_space (lstrip_by is_space s)"

definition startswith :: "string \<Rightarrow> string \<Rightarrow> bool" where
  "startswith s p = (take (length p) s = p)"

definition endswith :: "string \<Rightarrow> string \<Rightarrow> bool" where
  "endswith s p = (drop (length s - length p) s = p \<and> length p \<le> length s)"

text \<open>\<open>s.find(sub)\<close>: the index of the first occurrence, \<open>None\<close> for Python's \<open>-1\<close>.\<close>

fun find_sub :: "string \<Rightarrow> string \<Rightarrow> nat option" where
  "find_sub [] sub = (if sub = [] then Some 0 else None)"
| "find_sub (c # cs) sub =
     (if startswith (c # cs) sub then Some 0 else map_option Suc (find_sub cs sub))"

text \<open>
  \<open>s.count(sub)\<close>: the number of non-overlapping occurrences, scanning from the left;
  the empty string occurs \<open>len(s) + 1\<close> times.
\<close>

function count_sub :: "string \<Rightarrow> string \<Rightarrow> nat" where
  "count_sub s sub =
     (if sub = [] then length s + 1
      else if length s < length sub then 0
      else if startswith s sub then 1 + count_sub (drop (length sub) s) sub
      else count_sub (tl s) sub)"
  by pat_completeness auto
termination
proof (relation "measure (\<lambda>(s, sub). length s)")
  fix s sub :: string
  assume "sub \<noteq> []" and "\<not> length s < length sub"
  then have "0 < length sub" and "0 < length s"
    by (cases sub; cases s; simp)+
  then show "((drop (length sub) s, sub), (s, sub)) \<in> measure (\<lambda>(s, sub). length s)"
    and "((tl s, sub), (s, sub)) \<in> measure (\<lambda>(s, sub). length s)"
    by simp_all
qed simp

text \<open>\<open>s.replace(old, new)\<close> for a one-character \<open>old\<close>.\<close>

definition replace_char :: "string \<Rightarrow> char \<Rightarrow> string \<Rightarrow> string" where
  "replace_char s old new = concat (map (\<lambda>c. if c = old then new else [c]) s)"

section \<open>Signal scorers (app/curate\_results.py)\<close>

subsection \<open>\<open>length_score\<close>\<close>

text \<open>
  \<^verbatim>\<open>
  def length_score(n_chars, min_chars, max_chars):
      if n_chars is None or n_chars <= 0:
          return 0.0
      if n_chars < min_chars:
          return 0.2 * (n_chars / max(1, min_chars))
      if n_chars <= max_chars:
          return 1.0
      over = n_chars - max_chars
      return max(0.4, 1.0 / (1.0 + over / 100000))
  \<close>
  The two limits come from the YAML profile and may be integers or floats.
\<close>

definition length_score :: "int option \<Rightarrow> real \<Rightarrow> real \<Rightarrow> real" where
  "length_score n_chars min_chars max_chars =
     (case n_chars of
        None \<Rightarrow> 0
      | Some n \<Rightarrow>
          if n \<le> 0 then 0
          else if real_of_int n < min_chars then 0.2 * (real_of_int n / max 1 min_chars)
          else if real_of_int n \<le> max_chars then 1
          else (let over = real_of_int n - max_chars
                in max 0.4 (1 / (1 + over / 100000))))"

subsection \<open>\<open>keyword_score\<close>\<close>

text \<open>
  \<^verbatim>\<open>
  def safe_lower(s):
      return (s or "").lower()

  def keyword_score(text, include, exclude):
      if not text:
          return 0.0
      text_l = safe_lower(text)
      pos = 0
      for kw in include or []:
          if not kw:
              continue
          if kw.startswith("/") and kw.endswith("/"):
              try:
                  hits = re.findall(kw[1:-1], text, flags=re.IGNORECASE)
                  pos += len(hits)
              except re.error:
                  pass
          else:
              pos += text_l.count(kw.lower())
      neg = 0
      for kw in exclude or []:
          ... the same loop, adding to neg ...
      pos_part = math.log1p(pos) if pos > 0 else 0.0
      neg_part = 1.5 * math.log1p(neg) if neg > 0 else 0.0
      return max(0.0, pos_part - neg_part)
  \<close>
  The regular-expression engine is the standard library's. It is a parameter \<open>findall\<close>:
  \<open>findall p t\<close> tells what the call \<open>re.findall(p, t, flags=re.IGNORECASE)\<close> does. It
  returns a list, of which the code takes the length; or it raises \<open>re.error\<close>, which the
  \<open>except\<close> clause catches; or it raises something else (\<open>OverflowError\<close> for a repetition
  count that is too large, \<open>RecursionError\<close> for a pattern nested too deep), which the clause
  does not catch and which leaves \<open>keyword_score\<close>.
\<close>

datatype findall_result = Hits nat | Re_error | Other_error exc

type_synonym regex_engine = "string \<Rightarrow> string \<Rightarrow> findall_result"

definition safe_lower :: "string option \<Rightarrow> string" where
  "safe_lower s = str_lower (case s of None \<Rightarrow> [] | Some t \<Rightarrow> t)"

definition or_empty :: "'a list option \<Rightarrow> 'a list" where
  "or_empty xs = (case xs of None \<Rightarrow> [] | Some ys \<Rightarrow> ys)"

text \<open>One pass of the loop body: the new value of the counter, or the exception.\<close>

definition count_kw ::
  "regex_engine \<Rightarrow> string \<Rightarrow> string \<Rightarrow> string \<Rightarrow> nat \<Rightarrow> exc + nat" where
  "count_kw findall text text_l kw acc =
     (if kw = [] then Inr acc
      else if startswith kw ''/'' \<and> endswith kw ''/'' then
        (case findall (butlast (tl kw)) text of
           Hits hits \<Rightarrow> Inr (acc + hits)
         | Re_error \<Rightarrow> Inr acc
         | Other_error e \<Rightarrow> Inl e)
      else Inr (acc + count_sub text_l (str_lower kw)))"

fun count_kws ::
  "regex_engine \<Rightarrow> string \<Rightarrow> string \<Rightarrow> string list \<Rightarrow> nat \<Rightarrow> exc + nat" where
  "count_kws findall text text_l [] acc = Inr acc"
| "count_kws findall text text_l (kw # kws) acc =
     (case count_kw findall text text_l kw acc of
        Inl e \<Rightarrow> Inl e
      | Inr acc' \<Rightarrow> count_kws findall text text_l kws acc')"

definition keyword_score ::
  "regex_engine \<Rightarrow> string option \<Rightarrow> string list option \<Rightarrow> string list option
     \<Rightarrow> exc + real" where
  "keyword_score findall text include exclude =
     (case text of
        None \<Rightarrow> Inr 0
      | Some t \<Rightarrow>
          if t = [] then Inr 0
          else
            (let text_l = safe_lower text
             in case count_kws findall t text_l (or_empty include) 0 of
                  Inl e \<Rightarrow> Inl e
                | Inr pos \<Rightarrow>
                    (case count_kws findall t text_l (or_empty exclude) 0 of
                       Inl e \<Rightarrow> Inl e
                     | Inr neg \<Rightarrow>
                         (let pos_part = (if pos > 0 then ln (1 + real pos) else 0);
                              neg_part = (if neg > 0 then 1.5 * ln (1 + real neg) else 0)
                          in Inr (max 0 (pos_part - neg_part))))))"

text \<open>
  The number of hits of a pattern list as the specification words it: a pattern between
  slashes counts its regular-expression matches in the text (none when the pattern is
  invalid), any other pattern counts its case-insensitive substring occurrences.
\<close>

definition pattern_hits :: "regex_engine \<Rightarrow> string \<Rightarrow> string \<Rightarrow> nat" where
  "pattern_hits findall text kw =
     (if startswith kw ''/'' \<and> endswith kw ''/'' then
        (case findall (butlast (tl kw)) text of Hits hits \<Rightarrow> hits | _ \<Rightarrow> 0)
      else count_sub (str_lower text) (str_lower kw))"

definition total_hits :: "regex_engine \<Rightarrow> string \<Rightarrow> string list \<Rightarrow> nat" where
  "total_hits findall text kws = sum_list (map (pattern_hits findall text) kws)"

text \<open>
  A pattern that makes the engine raise something other than \<open>re.error\<close> on the text.
\<close>

definition pattern_raises :: "regex_engine \<Rightarrow> string \<Rightarrow> string \<Rightarrow> bool" where
  "pattern_raises findall text kw =
     (kw \<noteq> [] \<and> startswith kw ''/'' \<and> endswith kw ''/''
      \<and> (case findall (butlast (tl kw)) text of Other_error e \<Rightarrow> True | _ \<Rightarrow> False))"

text \<open>
  A fragment of the engine, enough to run the scorer on concrete inputs. The empty pattern
  matches once at every position of the text, \<open>len(text) + 1\<close> times in all. The pattern
  \<open>a{99999999999}\<close> makes the compiler of \<open>re\<close> raise \<open>OverflowError\<close>. The pattern \<open>[\<close>, an
  unterminated character set, makes it raise \<open>re.error\<close>; the fragment answers so for
  every other pattern too.
\<close>

definition findall_sample :: regex_engine where
  "findall_sample p t =
     (if p = [] then Hits (length t + 1)
      else if p = ''a{99999999999}''
        then Other_error (Exc ''OverflowError'' ''the repetition number is too large'')
      else Re_error)"

subsection \<open>\<open>recency_score\<close>\<close>

text \<open>
  \<^verbatim>\<open>
  def recency_score(fetched_at_iso, half_life_days=14, hard_days_cutoff=365):
      if not fetched_at_iso:
          return 0.2
      try:
          dt = datetime.fromisoformat(fetched_at_iso.replace("Z", "+00:00"))
      except Exception:
          return 0.2
      now = datetime.now(timezone.utc)
      days = max(0, (now - dt).days)
      s = 0.5 ** (days / max(1, half_life_days))
      if days > hard_days_cutoff:
          s *= 0.3
      return s
  \<close>
  A \<open>datetime\<close> is its instant in microseconds since the epoch and whether it carries a
  time zone. \<open>datetime.fromisoformat\<close> is a parameter (\<open>None\<close> when it raises), and so is
  the clock \<open>now\<close>, in microseconds. Subtracting a naive \<open>datetime\<close> from the aware \<open>now\<close>
  raises \<open>TypeError\<close>, outside the \<open>try\<close>; \<open>timedelta.days\<close> rounds towards minus infinity.

  The power \<open>0.5 ** x\<close> is the one place where the floating-point format decides what the
  properties below can say, so its underflow is part of the model: in binary64 the result
  is \<open>0.0\<close> exactly when \<open>x\<close> is 1075 or more (the power is then at most half the least
  positive number of the format, \<open>2 ** -1074\<close>). Below 1075 the model takes the exact power.
\<close>

definition pow_half :: "real \<Rightarrow> real" where
  "pow_half x = (if 1075 \<le> x then 0 else (1 / 2) powr x)"

record datetime =
  dt_micros :: int
  dt_aware :: bool

definition timedelta_days :: "int \<Rightarrow> datetime \<Rightarrow> exc + int" where
  "timedelta_days now dt =
     (if dt_aware dt then Inr ((now - dt_micros dt) div 86400000000)
      else Inl (Exc ''TypeError'' ''can't subtract offset-naive and offset-aware datetimes''))"

definition recency_score ::
  "(string \<Rightarrow> datetime option) \<Rightarrow> int \<Rightarrow> string option \<Rightarrow> real \<Rightarrow> real \<Rightarrow> exc + real" where
  "recency_score fromisoformat now fetched_at_iso half_life_days hard_days_cutoff =
     (case fetched_at_iso of
        None \<Rightarrow> Inr 0.2
      | Some stamp \<Rightarrow>
          if stamp = [] then Inr 0.2
          else
            (case fromisoformat (replace_char stamp CHR ''Z'' ''+00:00'') of
               None \<Rightarrow> Inr 0.2
             | Some dt \<Rightarrow>
                 (case timedelta_days now dt of
                    Inl e \<Rightarrow> Inl e
                  | Inr delta \<Rightarrow>
                      (let days = max 0 delta;
                           s = pow_half (real_of_int days / max 1 half_life_days)
                       in Inr (if real_of_int days > hard_days_cutoff then s * 0.3 else s)))))"

subsection \<open>\<open>domain_score\<close>\<close>

text \<open>
  \<^verbatim>\<open>
  def domain_score(domain, prefer_domains, avoid_domains):
      if not domain:
          return 0.3
      if domain in (d.lower() for d in (prefer_domains or [])):
          return 1.0
      if domain in (d.lower() for d in (avoid_domains or [])):
          return 0.0
      return 0.6
  \<close>
\<close>

definition domain_score :: "string \<Rightarrow> string list option \<Rightarrow> string list option \<Rightarrow> real" where
  "domain_score domain prefer_domains avoid_domains =
     (if domain = [] then 0.3
      else if domain \<in> set (map str_lower (or_empty prefer_domains)) then 1
      else if domain \<in> set (map str_lower (or_empty avoid_domains)) then 0
      else 0.6)"

text \<open>
  The quantities the properties of \<open>recency_score\<close> are stated with: the age of a timestamp
  in whole days, never negative (the variable \<open>days\<close> of the source), and the decay formula
  with the half-life floored at one day.
\<close>

definition age_days :: "int \<Rightarrow> datetime \<Rightarrow> int" where
  "age_days now dt = max 0 ((now - dt_micros dt) div 86400000000)"

definition decayed :: "int \<Rightarrow> real \<Rightarrow> real \<Rightarrow> real" where
  "decayed days half_life_days hard_days_cutoff =
     pow_half (real_of_int days / max 1 half_life_days)
       * (if real_of_int days > hard_days_cutoff then 0.3 else 1)"

text \<open>
  A fragment of \<open>datetime.fromisoformat\<close>, enough to run the scorer on concrete inputs:
  midnight UTC of 1 January and of 15 January 1970 with an offset, and 1 January 1970
  without one. Everything else is treated as unparseable.
\<close>

definition fromisoformat_sample :: "string \<Rightarrow> datetime option" where
  "fromisoformat_sample s =
     (if s = ''1970-01-01T00:00:00+00:00'' then Some \<lparr>dt_micros = 0, dt_aware = True\<rparr>
      else if s = ''1970-01-15T00:00:00+00:00''
        then Some \<lparr>dt_micros = 1209600000000, dt_aware = True\<rparr>
      else if s = ''1970-01-01T00:00:00'' then Some \<lparr>dt_micros = 0, dt_aware = False\<rparr>
      else None)"

section \<open>URL canonicalisation (app/crawl\_and\_rank.py)\<close>

subsection \<open>The standard library's \<open>urllib.parse\<close>\<close>

text \<open>
  \<open>canon\<close> and \<open>norm_domain\<close> call \<open>urlparse\<close> and \<open>urlunparse\<close> of the Python standard
  library, which is not part of the repository. The definitions below follow the text of
  \<open>Lib/urllib/parse.py\<close> (CPython 3.13) for \<open>str\<close> arguments, default \<open>scheme\<close> and
  \<open>allow_fragments\<close>. Two checks of that file are treated as follows.
  \<^item> The validation of a bracketed host, which goes through the \<open>ipaddress\<close> module and
    differs between releases, is a parameter \<open>bracket_check\<close>: it receives the network
    location and returns the exception the validation raises, if any.
  \<^item> \<open>_checknetloc\<close> rejects a network location whose NFKC normal form brings in one of
    \<open>/?#@:\<close>. No code point below 256 does, so the check never raises here.
\<close>

definition index_of :: "char \<Rightarrow> string \<Rightarrow> nat option" where
  "index_of c s = (if c \<in> set s then Some (length (takeWhile (\<lambda>d. d \<noteq> c) s)) else None)"

definition rindex_of :: "char \<Rightarrow> string \<Rightarrow> nat option" where
  "rindex_of c s =
     (if c \<in> set s then Some (length s - 1 - length (takeWhile (\<lambda>d. d \<noteq> c) (rev s)))
      else None)"

definition scheme_chars :: "char set" where
  "scheme_chars = set (''abcdefghijklmnopqrstuvwxyz'' @ ''ABCDEFGHIJKLMNOPQRSTUVWXYZ''
                        @ ''0123456789'' @ ''+-.'')"

definition uses_netloc :: "string list" where
  "uses_netloc = ['''', ''ftp'', ''http'', ''gopher'', ''nntp'', ''telnet'', ''imap'', ''wais'',
     ''file'', ''mms'', ''https'', ''shttp'', ''snews'', ''prospero'', ''rtsp'', ''rtsps'',
     ''rtspu'', ''rsync'', ''svn'', ''svn+ssh'', ''sftp'', ''nfs'', ''git'', ''git+ssh'',
     ''ws'', ''wss'', ''itms-services'']"

definition uses_params :: "string list" where
  "uses_params = ['''', ''ftp'', ''hdl'', ''prospero'', ''http'', ''imap'', ''https'', ''shttp'',
     ''rtsp'', ''rtsps'', ''rtspu'', ''sip'', ''sips'', ''mms'', ''sftp'', ''tel'']"

text \<open>The characters \<open>urlsplit\<close> strips from the left: C0 controls and the space.\<close>

definition c0_control_or_space :: "char \<Rightarrow> bool" where
  "c0_control_or_space c = ((of_char c :: nat) \<le> 32)"

definition unsafe_url_byte :: "char \<Rightarrow> bool" where
  "unsafe_url_byte c = ((of_char c :: nat) \<in> {9, 10, 13})"

definition is_ascii_alpha :: "char \<Rightarrow> bool" where
  "is_ascii_alpha c =
     (let n = (of_char c :: nat) in (65 \<le> n \<and> n \<le> 90) \<or> (97 \<le> n \<and> n \<le> 122))"

text \<open>
  \<^verbatim>\<open>
  def _splitnetloc(url, start=0):
      delim = len(url)
      for c in '/?#':
          wdelim = url.find(c, start)
          if wdelim >= 0:
              delim = min(delim, wdelim)
      return url[start:delim], url[delim:]
  \<close>
\<close>

definition splitnetloc :: "string \<Rightarrow> nat \<Rightarrow> string \<times> string" where
  "splitnetloc u start =
     (let rest = drop start u;
          stop = (\<lambda>c. c \<in> set ''/?#'')
      in (takeWhile (\<lambda>c. \<not> stop c) rest, dropWhile (\<lambda>c. \<not> stop c) rest))"

text \<open>\<open>s.split(c, 1)\<close> for a string that holds \<open>c\<close>.\<close>

definition split_once :: "char \<Rightarrow> string \<Rightarrow> string \<times> string" where
  "split_once c s = (takeWhile (\<lambda>d. d \<noteq> c) s, drop 1 (dropWhile (\<lambda>d. d \<noteq> c) s))"

record split_result =
  sr_scheme :: string
  sr_netloc :: string
  sr_path :: string
  sr_query :: string
  sr_fragment :: string

text \<open>
  \<^verbatim>\<open>
  def urlsplit(url, scheme='', allow_fragments=True):
      url = url.lstrip(_WHATWG_C0_CONTROL_OR_SPACE)
      for b in _UNSAFE_URL_BYTES_TO_REMOVE:
          url = url.replace(b, "")
      netloc = query = fragment = ''
      i = url.find(':')
      if i > 0 and url[0].isascii() and url[0].isalpha():
          for c in url[:i]:
              if c not in scheme_chars:
                  break
          else:
              scheme, url = url[:i].lower(), url[i+1:]
      if url[:2] == '//':
          netloc, url = _splitnetloc(url, 2)
          if (('[' in netloc and ']' not in netloc) or
                  (']' in netloc and '[' not in netloc)):
              raise ValueError("Invalid IPv6 URL")
          if '[' in netloc and ']' in netloc:
              _check_bracketed_netloc(netloc)
      if allow_fragments and '#' in url:
          url, fragment = url.split('#', 1)
      if '?' in url:
          url, query = url.split('?', 1)
      _checknetloc(netloc)
      return SplitResult(scheme, netloc, url, query, fragment)
  \<close>
\<close>

definition urlsplit :: "(string \<Rightarrow> exc option) \<Rightarrow> string \<Rightarrow> exc + split_result" where
  "urlsplit bracket_check url0 =
     (let url1 = filter (\<lambda>c. \<not> unsafe_url_byte c) (lstrip_by c0_control_or_space url0);
          (scheme, url2) =
            (case index_of CHR '':'' url1 of
               Some i \<Rightarrow>
                 if i > 0 \<and> is_ascii_alpha (hd url1) \<and> set (take i url1) \<subseteq> scheme_chars
                 then (str_lower (take i url1), drop (i + 1) url1)
                 else ([], url1)
             | None \<Rightarrow> ([], url1));
          after_fragment = (\<lambda>netloc url3.
            (let (url4, fragment) =
                   (if CHR ''#'' \<in> set url3 then split_once CHR ''#'' url3 else (url3, []));
                 (url5, query) =
                   (if CHR ''?'' \<in> set url4 then split_once CHR ''?'' url4 else (url4, []))
             in Inr \<lparr>sr_scheme = scheme, sr_netloc = netloc, sr_path = url5,
                     sr_query = query, sr_fragment = fragment\<rparr>))
      in if take 2 url2 = ''//'' then
           (case splitnetloc url2 2 of
              (netloc, url3) \<Rightarrow>
                if (CHR ''['' \<in> set netloc \<and> CHR '']'' \<notin> set netloc)
                   \<or> (CHR '']'' \<in> set netloc \<and> CHR ''['' \<notin> set netloc)
                then Inl (Exc ''ValueError'' ''Invalid IPv6 URL'')
                else if CHR ''['' \<in> set netloc \<and> CHR '']'' \<in> set netloc then
                  (case bracket_check netloc of
                     Some e \<Rightarrow> Inl e
                   | None \<Rightarrow> after_fragment netloc url3)
                else after_fragment netloc url3)
         else after_fragment [] url2)"

text \<open>
  \<^verbatim>\<open>
  def _splitparams(url):
      if '/'  in url:
          i = url.find(';', url.rfind('/'))
          if i < 0:
              return url, ''
      else:
          i = url.find(';')
      return url[:i], url[i+1:]
  \<close>
  In the second branch a missing semicolon leaves \<open>i = -1\<close>, and the slices are
  \<open>url[:-1]\<close> and \<open>url[0:]\<close>.
\<close>

definition splitparams :: "string \<Rightarrow> string \<times> string" where
  "splitparams u =
     (case rindex_of CHR ''/'' u of
        Some r \<Rightarrow>
          (case index_of CHR '';'' (drop r u) of
             None \<Rightarrow> (u, [])
           | Some j \<Rightarrow> (take (r + j) u, drop (r + j + 1) u))
      | None \<Rightarrow>
          (case index_of CHR '';'' u of
             Some i \<Rightarrow> (take i u, drop (i + 1) u)
           | None \<Rightarrow> (butlast u, u)))"

record parse_result =
  pr_scheme :: string
  pr_netloc :: string
  pr_path :: string
  pr_params :: string
  pr_query :: string
  pr_fragment :: string

text \<open>
  \<^verbatim>\<open>
  def urlparse(url, scheme='', allow_fragments=True):
      splitresult = urlsplit(url, scheme, allow_fragments)
      scheme, netloc, url, query, fragment = splitresult
      if scheme in uses_params and ';' in url:
          url, params = _splitparams(url)
      else:
          params = ''
      return ParseResult(scheme, netloc, url, params, query, fragment)
  \<close>
\<close>

definition urlparse :: "(string \<Rightarrow> exc option) \<Rightarrow> string \<Rightarrow> exc + parse_result" where
  "urlparse bracket_check url0 =
     (case urlsplit bracket_check url0 of
        Inl e \<Rightarrow> Inl e
      | Inr sr \<Rightarrow>
          (let (path, params) =
                 (if sr_scheme sr \<in> set uses_params \<and> CHR '';'' \<in> set (sr_path sr)
                  then splitparams (sr_path sr) else (sr_path sr, []))
           in Inr \<lparr>pr_scheme = sr_scheme sr, pr_netloc = sr_netloc sr, pr_path = path,
                   pr_params = params, pr_query = sr_query sr,
                   pr_fragment = sr_fragment sr\<rparr>))"

text \<open>
  \<^verbatim>\<open>
  def urlunsplit(components):
      scheme, netloc, url, query, fragment = components
      if netloc:
          if url and url[:1] != '/': url = '/' + url
          url = '//' + netloc + url
      elif url[:2] == '//':
          url = '//' + url
      elif scheme and scheme in uses_netloc and (not url or url[:1] == '/'):
          url = '//' + url
      if scheme:
          url = scheme + ':' + url
      if query:
          url = url + '?' + query
      if fragment:
          url = url + '#' + fragment
      return url

  def urlunparse(components):
      scheme, netloc, url, params, query, fragment = components
      if params:
          url = "%s;%s" % (url, params)
      return urlunsplit((scheme, netloc, url, query, fragment))
  \<close>
\<close>

definition urlunsplit :: "string \<Rightarrow> string \<Rightarrow> string \<Rightarrow> string \<Rightarrow> string \<Rightarrow> string" where
  "urlunsplit scheme netloc url0 query fragment =
     (let url1 =
            (if netloc \<noteq> [] then
               ''//'' @ netloc @ (if url0 \<noteq> [] \<and> take 1 url0 \<noteq> ''/'' then ''/'' @ url0 else url0)
             else if take 2 url0 = ''//'' then ''//'' @ url0
             else if scheme \<noteq> [] \<and> scheme \<in> set uses_netloc
                     \<and> (url0 = [] \<or> take 1 url0 = ''/'')
               then ''//'' @ url0
             else url0);
          url2 = (if scheme \<noteq> [] then scheme @ '':'' @ url1 else url1);
          url3 = (if query \<noteq> [] then url2 @ ''?'' @ query else url2)
      in if fragment \<noteq> [] then url3 @ ''#'' @ fragment else url3)"

definition urlunparse ::
  "string \<Rightarrow> string \<Rightarrow> string \<Rightarrow> string \<Rightarrow> string \<Rightarrow> string \<Rightarrow> string" where
  "urlunparse scheme netloc url0 params query fragment =
     urlunsplit scheme netloc (if params \<noteq> [] then url0 @ '';'' @ params else url0)
       query fragment"

subsection \<open>\<open>canon\<close> and \<open>unique_by_url\<close>\<close>

text \<open>
  \<^verbatim>\<open>
  def canon(url: str) -> str:
      u = urlparse(url)
      return urlunparse((u.scheme, u.netloc.lower(), u.path.rstrip("/"), "", "", ""))
  \<close>
  The function has no \<open>try\<close>: what \<open>urlparse\<close> raises leaves it.
\<close>

definition canon :: "(string \<Rightarrow> exc option) \<Rightarrow> string \<Rightarrow> exc + string" where
  "canon bracket_check u0 =
     (case urlparse bracket_check u0 of
        Inl e \<Rightarrow> Inl e
      | Inr u \<Rightarrow>
          Inr (urlunparse (pr_scheme u) (str_lower (pr_netloc u))
                 (rstrip_by (\<lambda>c. c = CHR ''/'') (pr_path u)) [] [] []))"

text \<open>
  \<^verbatim>\<open>
  def unique_by_url(items):
      seen = {}
      for it in items:
          if "url" not in it or "title" not in it:
              continue
          cu = canon(it["url"])
          if cu not in seen:
              seen[cu] = {**it, "url": cu}
      return list(seen.values())
  \<close>
  The dictionary \<open>seen\<close> keeps its keys in insertion order; it is an association list.
\<close>

fun unique_loop ::
  "(string \<Rightarrow> exc option) \<Rightarrow> (string \<times> json_obj) list \<Rightarrow> json_obj list
     \<Rightarrow> exc + (string \<times> json_obj) list" where
  "unique_loop bracket_check seen [] = Inr seen"
| "unique_loop bracket_check seen (it # its) =
     (case (it ''url'', it ''title'') of
        (Some u, Some t) \<Rightarrow>
          (case canon bracket_check u of
             Inl e \<Rightarrow> Inl e
           | Inr cu \<Rightarrow>
               if cu \<in> fst ` set seen then unique_loop bracket_check seen its
               else unique_loop bracket_check (seen @ [(cu, it(''url'' \<mapsto> cu))]) its)
      | _ \<Rightarrow> unique_loop bracket_check seen its)"

definition unique_by_url :: "(string \<Rightarrow> exc option) \<Rightarrow> json_obj list \<Rightarrow> exc + json_obj list" where
  "unique_by_url bracket_check items =
     (case unique_loop bracket_check [] items of
        Inl e \<Rightarrow> Inl e
      | Inr seen \<Rightarrow> Inr (map snd seen))"

subsection \<open>\<open>norm_domain\<close> (app/curate\_results.py)\<close>

text \<open>
  \<^verbatim>\<open>
  def norm_domain(u):
      try:
          netloc = urlparse(u).netloc.lower()
          if netloc.startswith("www."):
              netloc = netloc[4:]
          return netloc
      except Exception:
          return ""
  \<close>
\<close>

definition norm_domain :: "(string \<Rightarrow> exc option) \<Rightarrow> string \<Rightarrow> string" where
  "norm_domain bracket_check u =
     (case urlparse bracket_check u of
        Inl e \<Rightarrow> []
      | Inr p \<Rightarrow>
          (let netloc = str_lower (pr_netloc p)
           in if startswith netloc ''www.'' then drop 4 netloc else netloc))"

section \<open>Crawl orchestration (app/crawl\_extract.py)\<close>

subsection \<open>Input normalisation\<close>

text \<open>
  \<^verbatim>\<open>
  def pick(d, *keys, default=None):
      for k in keys:
          if k in d and d[k]:
              return d[k]
      return default
  \<close>
  The empty string is the falsy value of a JSON object's field.
\<close>

fun pick :: "json_obj \<Rightarrow> string list \<Rightarrow> string option" where
  "pick d [] = None"
| "pick d (k # keys) =
     (case d k of
        Some v \<Rightarrow> if v \<noteq> [] then Some v else pick d keys
      | None \<Rightarrow> pick d keys)"

record item =
  item_url :: string
  item_title :: string
  item_source_file :: string

text \<open>
  \<^verbatim>\<open>
  def load_items(files):
      items = []
      for p in files:
          for rec in read_jsonl(p):
              url = pick(rec, "url", "link")
              title = pick(rec, "title", "htmlTitle")
              if not url:
                  continue
              items.append({"url": url, "title": title or "",
                            "source_file": os.path.basename(p)})
      seen = set()
      deduped = []
      for it in items:
          if it["url"] in seen:
              continue
          seen.add(it["url"])
          deduped.append(it)
      return deduped
  \<close>
  An input file is its base name with the objects \<open>read_jsonl\<close> yields for it (the lines
  that are not JSON are skipped there, a missing file yields none).
\<close>

type_synonym input_file = "string \<times> json_obj list"

definition to_item :: "string \<Rightarrow> json_obj \<Rightarrow> item option" where
  "to_item source rec =
     (let url = pick rec [''url'', ''link''];
          title = pick rec [''title'', ''htmlTitle'']
      in case url of
           None \<Rightarrow> None
         | Some u \<Rightarrow>
             Some \<lparr>item_url = u,
                   item_title = (case title of None \<Rightarrow> [] | Some t \<Rightarrow> t),
                   item_source_file = source\<rparr>)"

definition collect_items :: "input_file list \<Rightarrow> item list" where
  "collect_items files =
     concat (map (\<lambda>(p, recs). List.map_filter (to_item p) recs) files)"

fun dedup_items :: "string set \<Rightarrow> item list \<Rightarrow> item list" where
  "dedup_items seen [] = []"
| "dedup_items seen (it # its) =
     (if item_url it \<in> seen then dedup_items seen its
      else it # dedup_items (insert (item_url it) seen) its)"

definition load_items :: "input_file list \<Rightarrow> item list" where
  "load_items files = dedup_items {} (collect_items files)"

subsection \<open>Fetching one URL\<close>

text \<open>
  The record \<open>fetch_one\<close> returns, one line of the ledger \<open>contents.jsonl\<close>.
\<close>

record fetch_record =
  url :: string
  title :: string
  source_file :: "string option"
  fetched_at :: string
  ok :: bool
  error :: "string option"
  markdown_path :: "string option"
  markdown_chars :: int

text \<open>
  The world outside the function: what the \<open>k\<close>-th call \<open>crawler.arun(url)\<close> does, whether
  writing the page file on that attempt raises, the clock and the SHA-1 digest.
\<close>

datatype arun_result = Raised exc | Markdown "string option"

record world =
  arun :: "string \<Rightarrow> nat \<Rightarrow> arun_result"
  write_page :: "string \<Rightarrow> nat \<Rightarrow> exc option"
  utcnow_iso :: "string \<Rightarrow> string"
  sha1 :: "string \<Rightarrow> string"

text \<open>
  What the function does besides returning: calls of the crawler, sleeps, and the page
  file it writes (path and text).
\<close>

datatype event = Call nat | Sleep nat | Wrote string string

text \<open>
  \<^verbatim>\<open>
  async def fetch_one(crawler, item, sem, retries=2, timeout=30):
      url = item["url"]
      title = item["title"]
      out = {"url": url, "title": title, "source_file": item.get("source_file"),
             "fetched_at": datetime.utcnow().isoformat() + "Z",
             "ok": False, "error": None, "markdown_path": None, "markdown_chars": 0}
      attempt = 0
      async with sem:
          while attempt <= retries:
              try:
                  result = await crawler.arun(url=url, timeout=timeout)
                  md = (result.markdown or "").strip()
                  if not md:
                      raise RuntimeError("Empty markdown")
                  fname = f"{sha1(url)}.md"
                  fpath = os.path.join(OUT_MD_DIR, fname)
                  with open(fpath, "w", encoding="utf-8") as f:
                      meta = f"<!-- title: {title}\nurl: {url}\nfetched_at: {out['fetched_at']}\n-->".strip()
                      f.write(meta + "\n\n" + md)
                  out["ok"] = True
                  out["markdown_path"] = os.path.relpath(fpath, start=".").replace("\\", "/")
                  out["markdown_chars"] = len(md)
                  return out
              except Exception as e:
                  attempt += 1
                  last_err = f"{type(e).__name__}: {e}"
                  if attempt > retries:
                      out["error"] = last_err
                      return out
                  await asyncio.sleep(min(2 ** attempt, 5))
  \<close>
  The body of the \<open>try\<close> is \<open>attempt_once\<close>; when the loop is never entered the function
  falls off its end and returns \<open>None\<close>.
\<close>

definition initial_record :: "world \<Rightarrow> item \<Rightarrow> fetch_record" where
  "initial_record w it =
     \<lparr>url = item_url it, title = item_title it, source_file = Some (item_source_file it),
      fetched_at = utcnow_iso w (item_url it) @ ''Z'',
      ok = False, error = None, markdown_path = None, markdown_chars = 0\<rparr>"

definition page_text :: "string \<Rightarrow> string \<Rightarrow> string \<Rightarrow> string \<Rightarrow> string" where
  "page_text page_title page_url page_fetched_at md =
     strip (''<!-- title: '' @ page_title @ [CHR 0x0A] @ ''url: '' @ page_url @ [CHR 0x0A]
            @ ''fetched_at: '' @ page_fetched_at @ [CHR 0x0A] @ ''-->'')
     @ [CHR 0x0A, CHR 0x0A] @ md"

definition attempt_once ::
  "world \<Rightarrow> fetch_record \<Rightarrow> nat \<Rightarrow> exc + fetch_record \<times> event" where
  "attempt_once w out k =
     (case arun w (url out) k of
        Raised e \<Rightarrow> Inl e
      | Markdown m \<Rightarrow>
          (let md = strip (case m of None \<Rightarrow> [] | Some s \<Rightarrow> s)
           in if md = [] then Inl (Exc ''RuntimeError'' ''Empty markdown'')
              else
                (let fpath = ''app/crawl_result/pages/'' @ sha1 w (url out) @ ''.md''
                 in case write_page w (url out) k of
                      Some e \<Rightarrow> Inl e
                    | None \<Rightarrow>
                        Inr (out\<lparr>ok := True, markdown_path := Some fpath,
                                 markdown_chars := int (length md)\<rparr>,
                             Wrote fpath
                               (page_text (title out) (url out) (fetched_at out) md)))))"

function fetch_loop ::
  "world \<Rightarrow> int \<Rightarrow> fetch_record \<Rightarrow> nat \<Rightarrow> fetch_record option \<times> event list" where
  "fetch_loop w retries out attempt =
     (if int attempt \<le> retries then
        (case attempt_once w out attempt of
           Inr (out', wrote) \<Rightarrow> (Some out', [Call attempt, wrote])
         | Inl e \<Rightarrow>
             (let attempt' = attempt + 1;
                  last_err = exc_type e @ '': '' @ exc_msg e
              in if int attempt' > retries
                 then (Some (out\<lparr>error := Some last_err\<rparr>), [Call attempt])
                 else (case fetch_loop w retries out attempt' of
                         (res, evs) \<Rightarrow>
                           (res, Call attempt # Sleep (min (2 ^ attempt') 5) # evs))))
      else (None, []))"
  by pat_completeness auto
termination
  by (relation "measure (\<lambda>(w, retries, out, attempt). nat (retries + 1 - int attempt))") auto

declare fetch_loop.simps [simp del]

definition fetch_one :: "world \<Rightarrow> item \<Rightarrow> int \<Rightarrow> fetch_record option \<times> event list" where
  "fetch_one w it retries = fetch_loop w retries (initial_record w it) 0"

subsection \<open>The orchestrator\<close>

text \<open>
  \<^verbatim>\<open>
  async def run_crawl(concurrency=8):
      ensure_dirs()
      items = load_items(INPUT_FILES)
      if not items:
          return
      done_ok = set()
      if os.path.exists(OUT_JSONL):
          for rec in read_jsonl(OUT_JSONL):
              if rec.get("ok") and rec.get("url"):
                  done_ok.add(rec["url"])
      pending = [it for it in items if it["url"] not in done_ok]
      if not pending:
          return
      sem = asyncio.Semaphore(concurrency)
      results_batch = []
      batch_size = 20
      async with AsyncWebCrawler() as crawler:
          tasks = [fetch_one(crawler, it, sem) for it in pending]
          for coro in asyncio.as_completed(tasks):
              res = await coro
              results_batch.append(res)
              status = "OK" if res["ok"] else f"ERR({res['error']})"
              if len(results_batch) >= batch_size:
                  write_jsonl(OUT_JSONL, results_batch)
                  results_batch.clear()
      if results_batch:
          write_jsonl(OUT_JSONL, results_batch)
  \<close>
  The order in which the tasks complete is a parameter \<open>completion\<close>, a rearrangement of
  the pending list. The state is the ledger file on disk together with the batch in
  memory.
\<close>

text \<open>
  \<^verbatim>\<open>
  def read_jsonl(path):
      if not os.path.exists(path):
          return []
      with open(path, "r", encoding="utf-8") as f:
          for line in f:
              line = line.strip()
              if not line:
                  continue
              try:
                  yield json.loads(line)
              except json.JSONDecodeError:
                  continue

  def write_jsonl(path, rows):
      with open(path, "a", encoding="utf-8") as f:
          for r in rows:
              f.write(json.dumps(r, ensure_ascii=False) + "\n")
  \<close>
  The ledger \<open>contents.jsonl\<close> is a text file. Of each line that ends in a newline the
  model keeps what \<open>json.loads\<close> makes of it: a record, or nothing when the line is blank or
  not JSON. The text after the last newline, when it is not blank, is the open line, kept
  in the same way; a missing or empty file has no line at all. \<open>write_jsonl\<close> appends
  without looking at the end of the file: on an open line the text of the first row lands
  on that very line, and the line it completes, some text followed by a JSON object, is
  not JSON.
\<close>

record ledger_file =
  whole_lines :: "fetch_record option list"
  open_line :: "fetch_record option option"

definition read_jsonl :: "ledger_file \<Rightarrow> fetch_record list" where
  "read_jsonl f =
     List.map_filter (\<lambda>l. l) (whole_lines f)
     @ (case open_line f of Some (Some r) \<Rightarrow> [r] | _ \<Rightarrow> [])"

definition write_jsonl :: "ledger_file \<Rightarrow> fetch_record list \<Rightarrow> ledger_file" where
  "write_jsonl f rows =
     (case rows of
        [] \<Rightarrow> f
      | r # rest \<Rightarrow>
          (case open_line f of
             None \<Rightarrow> f\<lparr>whole_lines := whole_lines f @ map Some rows\<rparr>
           | Some fragment \<Rightarrow>
               \<lparr>whole_lines = whole_lines f @ [None] @ map Some rest, open_line = None\<rparr>))"

definition done_ok_of :: "fetch_record list \<Rightarrow> string set" where
  "done_ok_of ledger =
     fold (\<lambda>rec done. if ok rec \<and> url rec \<noteq> [] then insert (url rec) done else done)
       ledger {}"

definition pending_of :: "item list \<Rightarrow> string set \<Rightarrow> item list" where
  "pending_of items done_ok = filter (\<lambda>it. item_url it \<notin> done_ok) items"

definition pending :: "input_file list \<Rightarrow> ledger_file \<Rightarrow> item list" where
  "pending files ledger = pending_of (load_items files) (done_ok_of (read_jsonl ledger))"

fun drain ::
  "ledger_file \<Rightarrow> fetch_record list \<Rightarrow> fetch_record option list
     \<Rightarrow> ledger_file \<times> fetch_record list \<times> exc option" where
  "drain ledger batch [] = (ledger, batch, None)"
| "drain ledger batch (None # rest) =
     (ledger, batch, Some (Exc ''TypeError'' '''NoneType' object is not subscriptable''))"
| "drain ledger batch (Some res # rest) =
     (let batch' = batch @ [res]
      in if length batch' \<ge> 20 then drain (write_jsonl ledger batch') [] rest
         else drain ledger batch' rest)"

definition results_of :: "world \<Rightarrow> item list \<Rightarrow> fetch_record option list" where
  "results_of w tasks = map (\<lambda>it. fst (fetch_one w it 2)) tasks"

definition run_crawl ::
  "world \<Rightarrow> (item list \<Rightarrow> item list) \<Rightarrow> input_file list \<Rightarrow> ledger_file
     \<Rightarrow> ledger_file \<times> exc option" where
  "run_crawl w completion files ledger =
     (let items = load_items files
      in if items = [] then (ledger, None)
         else
           (let todo = pending_of items (done_ok_of (read_jsonl ledger))
            in if todo = [] then (ledger, None)
               else
                 (case drain ledger [] (results_of w (completion todo)) of
                    (ledger', batch, Some e) \<Rightarrow> (ledger', Some e)
                  | (ledger', batch, None) \<Rightarrow>
                      (if batch \<noteq> [] then write_jsonl ledger' batch else ledger', None))))"

text \<open>
  The pending list as the specification words it: the candidate URLs without their
  repetitions, less the URLs with a successful record in the ledger.
\<close>

definition candidate_urls :: "input_file list \<Rightarrow> string list" where
  "candidate_urls files = map item_url (collect_items files)"

fun distinct_urls :: "string list \<Rightarrow> string list" where
  "distinct_urls [] = []"
| "distinct_urls (u # us) = u # distinct_urls (filter (\<lambda>v. v \<noteq> u) us)"

definition succeeded :: "fetch_record list \<Rightarrow> string set" where
  "succeeded ledger = {url rec | rec. rec \<in> set ledger \<and> ok rec}"

text \<open>
  Sample inputs: three candidate lines of one feed file, the first and the third with the
  same URL. In the first world \<open>http://a\<close> yields a page at once, and every other URL times
  out twice and then yields a page of white space only; in the second every call of the
  crawler times out; in the third every call yields a page.
\<close>

definition sample_files :: "input_file list" where
  "sample_files =
     [(''rss_data.jsonl'',
       [[''url'' \<mapsto> ''http://a'', ''title'' \<mapsto> ''A''],
        [''link'' \<mapsto> ''http://b''],
        [''url'' \<mapsto> ''http://a'', ''title'' \<mapsto> ''A again'']])]"

definition sample_world :: world where
  "sample_world =
     \<lparr>arun = (\<lambda>u k. if u = ''http://a'' then Markdown (Some '' page '')
                    else if k < 2 then Raised (Exc ''TimeoutError'' ''timed out'')
                    else Markdown (Some [CHR '' '', CHR 0x0A])),
      write_page = (\<lambda>u k. None),
      utcnow_iso = (\<lambda>u. ''2024-01-01T00:00:00''),
      sha1 = (\<lambda>u. if u = ''http://a'' then ''da39'' else ''b6f0'')\<rparr>"


definition sample_world_up :: world where
  "sample_world_up = sample_world\<lparr>arun := (\<lambda>u k. Markdown (Some '' page ''))\<rparr>"

definition sample_item_b :: item where
  "sample_item_b =
     \<lparr>item_url = ''http://b'', item_title = [], item_source_file = ''rss_data.jsonl''\<rparr>"

text \<open>
  The record of a successful fetch of \<open>http://a\<close>; a ledger file that holds the text of
  this record and no newline after it, as a write that was cut off before its last
  character leaves it; and a ledger file that holds the first half of that text, as a
  write that was cut off earlier leaves it.
\<close>

definition sample_row :: fetch_record where
  "sample_row =
     \<lparr>url = ''http://a'', title = ''A'', source_file = Some ''rss_data.jsonl'',
      fetched_at = ''2024-01-01T00:00:00Z'', ok = True, error = None,
      markdown_path = Some ''app/crawl_result/pages/da39.md'', markdown_chars = 4\<rparr>"

definition sample_ledger_open :: ledger_file where
  "sample_ledger_open = \<lparr>whole_lines = [], open_line = Some (Some sample_row)\<rparr>"

definition sample_ledger_cut :: ledger_file where
  "sample_ledger_cut = \<lparr>whole_lines = [], open_line = Some None\<rparr>"


section \<open>Fusion and ranking (app/curate\_results.py, \<open>main\<close>)\<close>

subsection \<open>The profile and the environment\<close>

text \<open>
  \<open>main\<close> reads the profile from YAML files. The record below holds the values after the
  \<open>or\<close> defaults of its first lines (\<open>min_chars\<close>, \<open>max_chars\<close>, \<open>half_life_days\<close> and
  \<open>hard_days_cutoff\<close> are never zero there); the weights stay a dictionary, read with
  \<open>weights.get(key, default)\<close>. \<open>final_n\<close>, \<open>llm_enabled\<close> and \<open>top_k_for_llm\<close> are the
  YAML values, integers when present; values of other YAML types are outside the model.
  The fields carry the prefix \<open>p_\<close>, those of the environment the prefix \<open>env_\<close>.
\<close>

record profile =
  p_include_keywords :: "string list option"
  p_exclude_keywords :: "string list option"
  p_prefer_domains :: "string list"
  p_avoid_domains :: "string list"
  p_final_n :: "int option"
  p_min_chars :: real
  p_max_chars :: real
  p_use_fetched_at :: bool
  p_half_life_days :: real
  p_hard_days_cutoff :: real
  p_weights :: "string \<rightharpoonup> real"
  p_llm_enabled :: bool
  p_top_k_for_llm :: "int option"

text \<open>
  What \<open>main\<close> takes from outside: the regular-expression engine, the bracketed-host
  validation of \<open>urlparse\<close>, \<open>datetime.fromisoformat\<close>, the clock, \<open>read_text\<close> (the text
  of the page file, empty when it cannot be read) and the rendering \<open>f"{x:.2f}"\<close>.
\<close>

record env =
  env_findall :: regex_engine
  env_bracket_check :: "string \<Rightarrow> exc option"
  env_fromisoformat :: "string \<Rightarrow> datetime option"
  env_now :: int
  env_read_text :: "string \<Rightarrow> string"
  env_format_2f :: "real \<Rightarrow> string"

subsection \<open>Scoring one row\<close>

text \<open>
  \<^verbatim>\<open>
  w_keyword = weights.get("keyword", 0.50)
  w_domain  = weights.get("domain", 0.20)
  w_recency = weights.get("recency", 0.20)
  w_length  = weights.get("length", 0.10)
  ...
  score = (w_keyword * ks) + (w_domain * ds) + (w_recency * rs) + (w_length * ls)
  \<close>
\<close>

definition weight_get :: "(string \<rightharpoonup> real) \<Rightarrow> string \<Rightarrow> real \<Rightarrow> real" where
  "weight_get ws key dflt = (case ws key of Some w \<Rightarrow> w | None \<Rightarrow> dflt)"

definition fused_score :: "(string \<rightharpoonup> real) \<Rightarrow> real \<Rightarrow> real \<Rightarrow> real \<Rightarrow> real \<Rightarrow> real" where
  "fused_score ws ks ds rs ls =
     (let w_keyword = weight_get ws ''keyword'' 0.50;
          w_domain = weight_get ws ''domain'' 0.20;
          w_recency = weight_get ws ''recency'' 0.20;
          w_length = weight_get ws ''length'' 0.10
      in (w_keyword * ks) + (w_domain * ds) + (w_recency * rs) + (w_length * ls))"

text \<open>The sum \<open>\<Sum> weight\<^sub>i \<cdot> score\<^sub>i\<close> of the specification, over a list of pairs.\<close>

definition weighted_sum :: "(real \<times> real) list \<Rightarrow> real" where
  "weighted_sum pairs = sum_list (map (\<lambda>(w, x). w * x) pairs)"

text \<open>
  \<^verbatim>\<open>
  for r in rows:
      if not r.get("ok"):
          continue
      url = r.get("url", "")
      title = r.get("title", "") or ""
      markdown_path = r.get("markdown_path")
      fetched_at = r.get("fetched_at") if use_fetched_at else None
      if not markdown_path:
          continue
      fullpath = ...
      content = read_text(fullpath)
      if not content:
          continue
      if content.startswith("<!--"):
          end = content.find("-->")
          if end != -1:
              content_for_score = content[end+3:].strip()
          else:
              content_for_score = content
      else:
          content_for_score = content
      n_chars = len(content_for_score)
      domain = norm_domain(url)
      ks = keyword_score(title + "\n" + content_for_score, include_kw, exclude_kw)
      ds = domain_score(domain, prefer_domains, avoid_domains)
      rs = recency_score(fetched_at, half_life_days, hard_days_cutoff)
      ls = length_score(n_chars, min_chars, max_chars)
      score = (w_keyword * ks) + (w_domain * ds) + (w_recency * rs) + (w_length * ls)
      reason_bits = []
      if ks > 0: reason_bits.append(f"keywords+:{ks:.2f}")
      if ds >= 0.9: reason_bits.append(f"prefer-domain:{domain}")
      if ds == 0.0: reason_bits.append(f"avoid-domain:{domain}")
      if rs > 0.7: reason_bits.append("very-recent")
      if n_chars < min_chars: reason_bits.append("too-short")
      if n_chars > max_chars: reason_bits.append("too-long")
      ...
      scored.append({"url": url, "title": title, "domain": domain, "score_raw": score,
                     "reasons": reason_bits, "fetched_at": fetched_at,
                     "markdown_path": r.get("markdown_path"), "chars": n_chars,
                     "snippet": snippet})
  \<close>
  The rows are the records of the ledger. The snippet, which nothing below reads, is left
  out of the record.
\<close>

record scored =
  s_url :: string
  s_title :: string
  s_domain :: string
  score_raw :: real
  reasons :: "string list"
  s_fetched_at :: "string option"
  s_markdown_path :: "string option"
  chars :: nat

definition content_for_score :: "string \<Rightarrow> string" where
  "content_for_score content =
     (if startswith content ''<!--'' then
        (case find_sub content ''-->'' of
           Some e \<Rightarrow> strip (drop (e + 3) content)
         | None \<Rightarrow> content)
      else content)"

record signals =
  sig_keyword :: real
  sig_domain :: real
  sig_recency :: real
  sig_length :: real

definition row_signals ::
  "env \<Rightarrow> profile \<Rightarrow> string \<Rightarrow> string \<Rightarrow> string option \<Rightarrow> string \<Rightarrow> exc + signals" where
  "row_signals ev prof row_url row_title row_fetched_at body =
     (let n_chars = length body;
          domain = norm_domain (env_bracket_check ev) row_url
      in case keyword_score (env_findall ev) (Some (row_title @ [CHR 0x0A] @ body))
                (p_include_keywords prof) (p_exclude_keywords prof) of
           Inl e \<Rightarrow> Inl e
         | Inr ks \<Rightarrow>
             (let ds = domain_score domain (Some (map str_lower (p_prefer_domains prof)))
                         (Some (map str_lower (p_avoid_domains prof)))
              in case recency_score (env_fromisoformat ev) (env_now ev) row_fetched_at
                        (p_half_life_days prof) (p_hard_days_cutoff prof) of
                   Inl e \<Rightarrow> Inl e
                 | Inr rs \<Rightarrow>
                     Inr \<lparr>sig_keyword = ks, sig_domain = ds, sig_recency = rs,
                           sig_length = length_score (Some (int n_chars)) (p_min_chars prof)
                                          (p_max_chars prof)\<rparr>))"

definition reason_bits :: "env \<Rightarrow> profile \<Rightarrow> string \<Rightarrow> nat \<Rightarrow> signals \<Rightarrow> string list" where
  "reason_bits ev prof domain n_chars sg =
     (if sig_keyword sg > 0 then [''keywords+:'' @ env_format_2f ev (sig_keyword sg)] else [])
     @ (if sig_domain sg \<ge> 0.9 then [''prefer-domain:'' @ domain] else [])
     @ (if sig_domain sg = 0 then [''avoid-domain:'' @ domain] else [])
     @ (if sig_recency sg > 0.7 then [''very-recent''] else [])
     @ (if real n_chars < p_min_chars prof then [''too-short''] else [])
     @ (if real n_chars > p_max_chars prof then [''too-long''] else [])"

text \<open>One pass of the loop: \<open>None\<close> when the row is skipped.\<close>

definition score_row :: "env \<Rightarrow> profile \<Rightarrow> fetch_record \<Rightarrow> exc + scored option" where
  "score_row ev prof r =
     (if \<not> ok r then Inr None
      else
        (let row_fetched_at = (if p_use_fetched_at prof then Some (fetched_at r) else None)
         in case markdown_path r of
              None \<Rightarrow> Inr None
            | Some p \<Rightarrow>
                if p = [] then Inr None
                else
                  (let content = env_read_text ev p
                   in if content = [] then Inr None
                      else
                        (let body = content_for_score content
                         in case row_signals ev prof (url r) (title r) row_fetched_at body of
                              Inl e \<Rightarrow> Inl e
                            | Inr sg \<Rightarrow>
                                Inr (Some
                                  \<lparr>s_url = url r, s_title = title r,
                                   s_domain = norm_domain (env_bracket_check ev) (url r),
                                   score_raw = fused_score (p_weights prof) (sig_keyword sg)
                                     (sig_domain sg) (sig_recency sg) (sig_length sg),
                                   reasons = reason_bits ev prof
                                     (norm_domain (env_bracket_check ev) (url r)) (length body) sg,
                                   s_fetched_at = row_fetched_at,
                                   s_markdown_path = markdown_path r,
                                   chars = length body\<rparr>)))))"

fun score_rows :: "env \<Rightarrow> profile \<Rightarrow> fetch_record list \<Rightarrow> exc + scored list" where
  "score_rows ev prof [] = Inr []"
| "score_rows ev prof (r # rows) =
     (case score_row ev prof r of
        Inl e \<Rightarrow> Inl e
      | Inr res \<Rightarrow>
          (case score_rows ev prof rows of
             Inl e \<Rightarrow> Inl e
           | Inr rest \<Rightarrow> Inr ((case res of None \<Rightarrow> [] | Some s \<Rightarrow> [s]) @ rest)))"

subsection \<open>Re-scoring the head, the final sort and the cut\<close>

text \<open>
  \<^verbatim>\<open>
  if llm_cfg.get("llm_enabled", False):
      top_k = min(int(llm_cfg.get("top_k_for_llm", 60) or 60), len(scored))
      scored.sort(key=lambda x: x["score_raw"], reverse=True)
      head = scored[:top_k]
      tail = scored[top_k:]
      for h in head:
          bonus = min(0.1, math.log1p(h["chars"]) / 10000.0)
          h["score_llm"] = bonus
          h["score"] = h["score_raw"] + bonus
          h["reasons"].append("llm:bonus")
      for t in tail:
          t["score_llm"] = 0.0
          t["score"] = t["score_raw"]
      scored = head + tail
  else:
      for it in scored:
          it["score_llm"] = 0.0
          it["score"] = it["score_raw"]
  scored.sort(key=lambda x: x["score"], reverse=True)
  final_n = int(final_n) if isinstance(final_n, int) or (...) else 40
  top = scored[:final_n]
  \<close>
  \<open>list.sort\<close> is stable, also with \<open>reverse=True\<close>: items with equal keys keep their
  order. It is the stable insertion sort of the library on the negated key. A slice
  \<open>xs[:k]\<close> with a negative \<open>k\<close> stops \<open>-k\<close> items before the end.
\<close>

record ranked =
  base :: scored
  score_llm :: real
  score :: real

definition sort_desc :: "('a \<Rightarrow> real) \<Rightarrow> 'a list \<Rightarrow> 'a list" where
  "sort_desc key xs = sort_key (\<lambda>x. - key x) xs"

definition slice_to :: "int \<Rightarrow> 'a list \<Rightarrow> 'a list" where
  "slice_to k xs = (if k \<ge> 0 then take (nat k) xs else take (nat (int (length xs) + k)) xs)"

definition slice_from :: "int \<Rightarrow> 'a list \<Rightarrow> 'a list" where
  "slice_from k xs = (if k \<ge> 0 then drop (nat k) xs else drop (nat (int (length xs) + k)) xs)"

definition or_default :: "int option \<Rightarrow> int \<Rightarrow> int" where
  "or_default v d = (case v of None \<Rightarrow> d | Some n \<Rightarrow> if n = 0 then d else n)"

definition with_bonus :: "scored \<Rightarrow> ranked" where
  "with_bonus h =
     (let bonus = min 0.1 (ln (1 + real (chars h)) / 10000)
      in \<lparr>base = h\<lparr>reasons := reasons h @ [''llm:bonus'']\<rparr>,
          score_llm = bonus, score = score_raw h + bonus\<rparr>)"

definition without_bonus :: "scored \<Rightarrow> ranked" where
  "without_bonus t = \<lparr>base = t, score_llm = 0, score = score_raw t\<rparr>"

definition top_k :: "profile \<Rightarrow> scored list \<Rightarrow> int" where
  "top_k prof items = min (or_default (p_top_k_for_llm prof) 60) (int (length items))"

definition rescore :: "profile \<Rightarrow> scored list \<Rightarrow> ranked list" where
  "rescore prof items =
     (if p_llm_enabled prof then
        (let sorted = sort_desc score_raw items;
             head = slice_to (top_k prof items) sorted;
             tail = slice_from (top_k prof items) sorted
         in map with_bonus head @ map without_bonus tail)
      else map without_bonus items)"

definition rank :: "profile \<Rightarrow> scored list \<Rightarrow> ranked list" where
  "rank prof items =
     slice_to (or_default (p_final_n prof) 40) (sort_desc score (rescore prof items))"

text \<open>
  \<open>main\<close> up to the list \<open>top\<close> it writes out; with no row or no scored item it returns
  before writing anything.
\<close>

definition curate :: "env \<Rightarrow> profile \<Rightarrow> fetch_record list \<Rightarrow> exc + ranked list" where
  "curate ev prof rows =
     (if rows = [] then Inr []
      else
        (case score_rows ev prof rows of
           Inl e \<Rightarrow> Inl e
         | Inr items \<Rightarrow> if items = [] then Inr [] else Inr (rank prof items)))"

text \<open>
  Sample inputs for the ranking: five scored items with the provisional scores 0.9, 0.1,
  0.5, 0.7 and 0.3, a profile that re-scores the two best and keeps three, and an
  environment in which the page file of \<open>sample_row\<close> holds what \<open>fetch_one\<close> writes for
  the markdown \<open>page\<close>.
\<close>

definition sample_scored_item :: "string \<Rightarrow> real \<Rightarrow> nat \<Rightarrow> scored" where
  "sample_scored_item u raw n =
     \<lparr>s_url = u, s_title = [], s_domain = [], score_raw = raw, reasons = [],
      s_fetched_at = None, s_markdown_path = None, chars = n\<rparr>"

definition sample_scored :: "scored list" where
  "sample_scored =
     [sample_scored_item ''u1'' (9 / 10) 1000, sample_scored_item ''u2'' (1 / 10) 1000,
      sample_scored_item ''u3'' (1 / 2) 1000, sample_scored_item ''u4'' (7 / 10) 1000,
      sample_scored_item ''u5'' (3 / 10) 1000]"

definition sample_profile :: profile where
  "sample_profile =
     \<lparr>p_include_keywords = Some [''page''], p_exclude_keywords = None,
      p_prefer_domains = [''a''], p_avoid_domains = [],
      p_final_n = Some 3, p_min_chars = 500, p_max_chars = 150000,
      p_use_fetched_at = False, p_half_life_days = 14, p_hard_days_cutoff = 365,
      p_weights = [''keyword'' \<mapsto> 2, ''domain'' \<mapsto> 3],
      p_llm_enabled = True, p_top_k_for_llm = Some 2\<rparr>"

definition sample_env :: env where
  "sample_env =
     \<lparr>env_findall = findall_sample, env_bracket_check = (\<lambda>netloc. None),
      env_fromisoformat = fromisoformat_sample, env_now = 1209600000000,
      env_read_text =
        (\<lambda>p. if p = ''app/crawl_result/pages/da39.md''
             then page_text ''A'' ''http://a'' ''2024-01-01T00:00:00Z'' ''page'' else []),
      env_format_2f = (\<lambda>x. ''0.00'')\<rparr>"

section \<open>Properties of the length score\<close>

lemma length_score_over:
  assumes "0 < n" and "\<not> real_of_int n < min_chars" and "max_chars < real_of_int n"
  shows "length_score (Some n) min_chars max_chars
           = max 0.4 (1 / (1 + (real_of_int n - max_chars) / 100000))"
  using assms by (simp add: length_score_def Let_def)

lemma length_score_floor_reached:
  assumes "150000 \<le> (over::real)"
  shows "max 0.4 (1 / (1 + over / 100000)) = 0.4"
proof -
  have pos: "0 < 1 + over / 100000" using assms by simp
  have "5 / 2 \<le> 1 + over / 100000" using assms by simp
  then have "1 / (1 + over / 100000) \<le> 1 / (5 / 2)"
    by (intro divide_left_mono) (use pos in simp_all)
  then have "1 / (1 + over / 100000) \<le> 0.4" by simp
  then show ?thesis by simp
qed

lemma length_score_nonneg: "0 \<le> length_score n min_chars max_chars"
  by (cases n) (auto simp: length_score_def Let_def)

lemma length_score_short:
  assumes "0 < n" and "real_of_int n < min_chars"
  shows "length_score (Some n) min_chars max_chars = 0.2 * (real_of_int n / min_chars)"
proof -
  have "1 \<le> real_of_int n" using assms(1) by simp
  then have "max 1 min_chars = min_chars" using assms(2) by simp
  then show ?thesis using assms by (simp add: length_score_def)
qed

lemma length_score_short_le:
  assumes "0 < n" and "real_of_int n < min_chars"
  shows "length_score (Some n) min_chars max_chars \<le> 0.2"
proof -
  have "1 \<le> real_of_int n" using assms(1) by simp
  then have "0 < min_chars" using assms(2) by linarith
  then have "real_of_int n / min_chars \<le> 1" using assms(2) by simp
  then show ?thesis unfolding length_score_short [OF assms] by simp
qed

lemma length_score_band:
  assumes "0 < n" and "min_chars \<le> real_of_int n" and "real_of_int n \<le> max_chars"
  shows "length_score (Some n) min_chars max_chars = 1"
  using assms by (simp add: length_score_def)

lemma length_score_nonpos: "n \<le> 0 \<Longrightarrow> length_score (Some n) min_chars max_chars = 0"
  by (simp add: length_score_def)

lemma length_score_mono_short:
  assumes band: "0 < min_chars" "min_chars \<le> max_chars"
    and ab: "a \<le> b" and b: "real_of_int b \<le> min_chars"
  shows "length_score (Some a) min_chars max_chars \<le> length_score (Some b) min_chars max_chars"
proof (cases "a \<le> 0")
  case True
  then show ?thesis by (simp add: length_score_nonpos length_score_nonneg)
next
  case False
  then have a: "0 < a" and b0: "0 < b" using ab by simp_all
  show ?thesis
  proof (cases "real_of_int b < min_chars")
    case True
    then have alt: "real_of_int a < min_chars" using ab by linarith
    have "real_of_int a / min_chars \<le> real_of_int b / min_chars"
      using ab band(1) by (simp add: divide_right_mono)
    then show ?thesis
      unfolding length_score_short [OF a alt] length_score_short [OF b0 True] by simp
  next
    case False
    then have "length_score (Some b) min_chars max_chars = 1"
      using b b0 band(2) by (intro length_score_band) simp_all
    moreover have "length_score (Some a) min_chars max_chars \<le> 1"
    proof (cases "real_of_int a < min_chars")
      case True
      then show ?thesis using length_score_short_le [OF a True, of max_chars] by simp
    next
      case F: False
      then have "real_of_int a \<le> max_chars" using ab b band(2) by linarith
      then show ?thesis using F a by (simp add: length_score_band)
    qed
    ultimately show ?thesis by simp
  qed
qed

lemma overflow_term_antimono:
  assumes "0 \<le> (x::real)" and "x \<le> y"
  shows "max 0.4 (1 / (1 + y / 100000)) \<le> max 0.4 (1 / (1 + x / 100000))"
proof -
  have "1 / (1 + y / 100000) \<le> 1 / (1 + x / 100000)"
    using assms by (intro divide_left_mono) (simp_all add: add_pos_nonneg)
  then show ?thesis by (simp add: max.coboundedI2)
qed

lemma length_score_over_band:
  assumes "0 < min_chars" "min_chars \<le> max_chars" "max_chars < real_of_int k"
  shows "length_score (Some k) min_chars max_chars
           = max 0.4 (1 / (1 + (real_of_int k - max_chars) / 100000))"
proof -
  have "0 < k" using assms by linarith
  moreover have "\<not> real_of_int k < min_chars" using assms by linarith
  ultimately show ?thesis using assms(3) by (rule length_score_over)
qed

lemma length_score_antimono_long:
  assumes "0 < min_chars" "min_chars \<le> max_chars" "max_chars < real_of_int a" "a \<le> b"
  shows "length_score (Some b) min_chars max_chars \<le> length_score (Some a) min_chars max_chars"
proof -
  have hb: "max_chars < real_of_int b" using assms by linarith
  have "max 0.4 (1 / (1 + (real_of_int b - max_chars) / 100000))
          \<le> max 0.4 (1 / (1 + (real_of_int a - max_chars) / 100000))"
    using assms by (intro overflow_term_antimono) simp_all
  then show ?thesis
    unfolding length_score_over_band [OF assms(1,2) hb]
      length_score_over_band [OF assms(1,2,3)] .
qed

text \<open>
  Claim C9, as amended. For a length band \<open>0 < min_chars \<le> max_chars\<close>: the score of 0
  characters is 0; for \<open>0 < n < min_chars\<close> it is \<open>0.2 * (n / min_chars)\<close>; it is monotone
  non-decreasing on \<open>[0, min_chars]\<close> and 1 at \<open>min_chars\<close>; it is 1 on
  \<open>[min_chars, max_chars]\<close>; above \<open>max_chars\<close> it is
  \<open>max(0.4, 1 / (1 + (n - max_chars) / 100000))\<close>, which never increases with \<open>n\<close> and
  never falls below 0.4, so it never reaches zero.
\<close>

theorem length_score_profile:
  assumes band: "0 < min_chars" "min_chars \<le> max_chars"
  shows "length_score (Some 0) min_chars max_chars = 0
    \<and> (0 < n \<and> real_of_int n < min_chars
           \<longrightarrow> length_score (Some n) min_chars max_chars = 0.2 * (real_of_int n / min_chars))
    \<and> (a \<le> b \<and> real_of_int b \<le> min_chars
           \<longrightarrow> length_score (Some a) min_chars max_chars \<le> length_score (Some b) min_chars max_chars)
    \<and> (min_chars = real_of_int m \<longrightarrow> length_score (Some m) min_chars max_chars = 1)
    \<and> (min_chars \<le> real_of_int n \<and> real_of_int n \<le> max_chars
           \<longrightarrow> length_score (Some n) min_chars max_chars = 1)
    \<and> (max_chars < real_of_int n
           \<longrightarrow> length_score (Some n) min_chars max_chars
                 = max 0.4 (1 / (1 + (real_of_int n - max_chars) / 100000))
               \<and> 0.4 \<le> length_score (Some n) min_chars max_chars)
    \<and> (max_chars < real_of_int a \<and> a \<le> b
           \<longrightarrow> length_score (Some b) min_chars max_chars \<le> length_score (Some a) min_chars max_chars)"
proof -
  have c1: "length_score (Some 0) min_chars max_chars = 0"
    by (simp add: length_score_nonpos)
  have c2: "0 < n \<and> real_of_int n < min_chars
           \<longrightarrow> length_score (Some n) min_chars max_chars = 0.2 * (real_of_int n / min_chars)"
    using length_score_short by blast
  have c3: "a \<le> b \<and> real_of_int b \<le> min_chars
           \<longrightarrow> length_score (Some a) min_chars max_chars \<le> length_score (Some b) min_chars max_chars"
    using length_score_mono_short [OF band] by blast
  have c4: "min_chars = real_of_int m \<longrightarrow> length_score (Some m) min_chars max_chars = 1"
    using band by (auto intro!: length_score_band)
  have c5: "min_chars \<le> real_of_int n \<and> real_of_int n \<le> max_chars
           \<longrightarrow> length_score (Some n) min_chars max_chars = 1"
    using band by (auto intro!: length_score_band)
  have c6: "max_chars < real_of_int n
           \<longrightarrow> length_score (Some n) min_chars max_chars
                 = max 0.4 (1 / (1 + (real_of_int n - max_chars) / 100000))
               \<and> 0.4 \<le> length_score (Some n) min_chars max_chars"
    using length_score_over_band [OF band, of n] by simp
  have c7: "max_chars < real_of_int a \<and> a \<le> b
           \<longrightarrow> length_score (Some b) min_chars max_chars \<le> length_score (Some a) min_chars max_chars"
    using length_score_antimono_long [OF band] by blast
  from c1 c2 c3 c4 c5 c6 c7 show ?thesis by blast
qed

theorem length_score_profile_witness:
  "length_score (Some 0) 500 150000 = 0
   \<and> length_score (Some 250) 500 150000 = 0.1
   \<and> length_score (Some 250) 500 150000 \<le> length_score (Some 500) 500 150000
   \<and> length_score (Some 500) 500 150000 = 1
   \<and> length_score (Some 150000) 500 150000 = 1
   \<and> length_score (Some 250000) 500 150000 = 1 / 2
   \<and> length_score (Some 450000) 500 150000 \<le> length_score (Some 250000) 500 150000"
proof -
  have band: "(0::real) < 500" "(500::real) \<le> 150000" by simp_all
  have w1: "length_score (Some 0) 500 150000 = 0"
    using length_score_profile [OF band, where n=1 and a=1 and b=1 and m=1] by simp
  have w2: "length_score (Some 250) 500 150000 = 0.1"
    using length_score_profile [OF band, where n=250 and a=1 and b=1 and m=1] by simp
  have w3: "length_score (Some 250) 500 150000 \<le> length_score (Some 500) 500 150000"
    using length_score_profile [OF band, where n=1 and a=250 and b=500 and m=1] by simp
  have w4: "length_score (Some 500) 500 150000 = 1"
    using length_score_profile [OF band, where n=1 and a=1 and b=1 and m=500] by simp
  have w5: "length_score (Some 150000) 500 150000 = 1"
    using length_score_profile [OF band, where n=150000 and a=1 and b=1 and m=1] by simp
  have w6: "length_score (Some 250000) 500 150000 = 1 / 2"
    using length_score_profile [OF band, where n=250000 and a=1 and b=1 and m=1] by simp
  have w7: "length_score (Some 450000) 500 150000 \<le> length_score (Some 250000) 500 150000"
    using length_score_profile [OF band, where n=1 and a=250000 and b=450000 and m=1] by simp
  from w1 w2 w3 w4 w5 w6 w7 show ?thesis by blast
qed

text \<open>
  Claim C9 as stated says that the score above \<open>max_chars\<close> keeps decaying with the inverse
  of the overflow. With the default band, 350000 and 450000 characters score the same 0.4,
  which is not the inverse-overflow value at 450000.
\<close>

theorem length_score_decay_counterexample:
  "length_score (Some 350000) 500 150000 = length_score (Some 450000) 500 150000
   \<and> length_score (Some 450000) 500 150000 \<noteq> 1 / (1 + (450000 - 150000) / 100000)"
  by (simp add: length_score_def)


text \<open>
  Claim C10, as amended. For a length band with \<open>min_chars \<le> max_chars\<close> and \<open>0 \<le> max_chars\<close>, every
  character count \<open>n\<close> above \<open>max_chars\<close> scores \<open>max(0.4, 1 / (1 + (n - max_chars) / 100000))\<close>;
  the score of over-long content is never below 0.4, and it is exactly 0.4 once the overflow
  reaches 150000 characters.
\<close>

theorem length_score_overlong:
  assumes "min_chars \<le> max_chars" and "0 \<le> max_chars" and "max_chars < real_of_int n"
  shows "length_score (Some n) min_chars max_chars
           = max 0.4 (1 / (1 + (real_of_int n - max_chars) / 100000))
         \<and> 0.4 \<le> length_score (Some n) min_chars max_chars
         \<and> (150000 \<le> real_of_int n - max_chars
              \<longrightarrow> length_score (Some n) min_chars max_chars = 0.4)"
proof -
  have n: "0 < n" using assms by linarith
  have m: "\<not> real_of_int n < min_chars" using assms by linarith
  have eq: "length_score (Some n) min_chars max_chars
              = max 0.4 (1 / (1 + (real_of_int n - max_chars) / 100000))"
    by (rule length_score_over [OF n m assms(3)])
  have lb: "0.4 \<le> length_score (Some n) min_chars max_chars"
    unfolding eq by simp
  have fl: "150000 \<le> real_of_int n - max_chars
              \<longrightarrow> length_score (Some n) min_chars max_chars = 0.4"
    unfolding eq using length_score_floor_reached by blast
  from eq lb fl show ?thesis by blast
qed

theorem length_score_overlong_witness:
  "length_score (Some 250000) 500 150000 = 1 / 2
   \<and> length_score (Some 300000) 500 150000 = 0.4"
proof -
  have a: "length_score (Some 250000) 500 150000
             = max 0.4 (1 / (1 + (real_of_int 250000 - 150000) / 100000))"
    using length_score_overlong [of 500 150000 250000] by simp
  have b: "length_score (Some 300000) 500 150000 = 0.4"
    using length_score_overlong [of 500 150000 300000] by simp
  from a b show ?thesis by simp
qed

text \<open>
  Claim C10 as stated covers every band. When \<open>min_chars\<close> lies above \<open>max_chars\<close> the test
  for a short text comes first: with \<open>min_chars = 500\<close> and \<open>max_chars = 100\<close>, 200 characters
  exceed \<open>max_chars\<close> and score \<open>0.2 * (200 / 500) = 0.08\<close>, below 0.4.
\<close>

theorem length_score_inverted_band_counterexample:
  "length_score (Some 200) 500 100 = 2 / 25
   \<and> length_score (Some 200) 500 100 < 0.4
   \<and> length_score (Some 200) 500 100 \<noteq> max 0.4 (1 / (1 + (200 - 100) / 100000))"
  by (simp add: length_score_def)

section \<open>Properties of the keyword score\<close>

lemma count_kw_quiet:
  assumes "\<not> pattern_raises findall text kw"
  shows "count_kw findall text (str_lower text) kw acc
           = Inr (acc + (if kw = [] then 0 else pattern_hits findall text kw))"
  using assms
  by (auto simp: count_kw_def pattern_hits_def pattern_raises_def split: findall_result.splits)

lemma count_kws_quiet:
  assumes "\<forall>kw \<in> set kws. \<not> pattern_raises findall text kw"
  shows "count_kws findall text (str_lower text) kws acc
           = Inr (acc + total_hits findall text (filter (\<lambda>kw. kw \<noteq> []) kws))"
  using assms
proof (induction kws arbitrary: acc)
  case Nil
  then show ?case by (simp add: total_hits_def)
next
  case (Cons kw kws)
  have q: "\<not> pattern_raises findall text kw" using Cons.prems by simp
  have r: "\<forall>kw \<in> set kws. \<not> pattern_raises findall text kw" using Cons.prems by simp
  show ?case
    unfolding count_kws.simps count_kw_quiet [OF q]
    by (simp add: Cons.IH [OF r] total_hits_def)
qed

lemma log1p_guard: "(if n > 0 then ln (1 + real n) else 0) = ln (1 + real n)"
  by simp

text \<open>
  Where no pattern makes the engine raise anything but \<open>re.error\<close>, the score of a
  non-empty text is the formula of the specification over the non-empty patterns.
\<close>

lemma keyword_score_formula:
  assumes "text \<noteq> []"
    and "\<forall>kw \<in> set (or_empty include). \<not> pattern_raises findall text kw"
    and "\<forall>kw \<in> set (or_empty exclude). \<not> pattern_raises findall text kw"
  shows "keyword_score findall (Some text) include exclude
           = Inr (max 0 (ln (1 + real (total_hits findall text
                                        (filter (\<lambda>kw. kw \<noteq> []) (or_empty include))))
                    - 1.5 * ln (1 + real (total_hits findall text
                                            (filter (\<lambda>kw. kw \<noteq> []) (or_empty exclude))))))"
proof -
  have l: "safe_lower (Some text) = str_lower text" by (simp add: safe_lower_def)
  show ?thesis
    using assms(1)
    by (simp add: keyword_score_def Let_def l count_kws_quiet [OF assms(2)]
        count_kws_quiet [OF assms(3)] log1p_guard)
qed

text \<open>
  The page file of \<open>sample_row\<close> in \<open>sample_env\<close>: what \<open>main\<close> scores of it is the
  markdown after the leading comment.
\<close>

lemma sample_page_content:
  "content_for_score (page_text ''A'' ''http://a'' ''2024-01-01T00:00:00Z'' ''page'') = ''page''"
  by code_simp

lemma sample_page_nonempty:
  "page_text ''A'' ''http://a'' ''2024-01-01T00:00:00Z'' ''page'' \<noteq> []"
  by (simp add: page_text_def)

lemma sample_env_read_text:
  "env_read_text sample_env ''app/crawl_result/pages/da39.md''
     = page_text ''A'' ''http://a'' ''2024-01-01T00:00:00Z'' ''page''"
  by (simp add: sample_env_def)

text \<open>
  Claim C7 does not hold of the code. \<open>keyword_score\<close> catches \<open>re.error\<close> only, and
  \<open>re.findall\<close> raises \<open>OverflowError\<close> on the pattern \<open>a{99999999999}\<close>. With the include
  keyword \<open>/a{99999999999}/\<close> the call \<open>keyword_score("abc", ["/a{99999999999}/"], [])\<close>
  raises instead of skipping the pattern, and so does \<open>main\<close> on the ledger row of
  \<open>http://a\<close> under a profile with this keyword; the pattern \<open>/[/\<close>, which raises
  \<open>re.error\<close>, is skipped.
\<close>

theorem keyword_score_overflow_escapes:
  "keyword_score findall_sample (Some ''abc'') (Some [''/a{99999999999}/'']) None
     = Inl (Exc ''OverflowError'' ''the repetition number is too large'')
   \<and> keyword_score findall_sample (Some ''abc'') (Some [''/[/'']) None = Inr 0
   \<and> curate sample_env (sample_profile\<lparr>p_include_keywords := Some [''/a{99999999999}/'']\<rparr>)
         [sample_row]
       = Inl (Exc ''OverflowError'' ''the repetition number is too large'')"
proof -
  have a: "count_kws findall_sample ''abc'' (safe_lower (Some ''abc'')) [''/a{99999999999}/''] 0
             = Inl (Exc ''OverflowError'' ''the repetition number is too large'')"
    by code_simp
  have b: "count_kws findall_sample ''abc'' (safe_lower (Some ''abc'')) [''/[/''] 0 = Inr 0"
    by code_simp
  have c: "count_kws findall_sample ''abc'' (safe_lower (Some ''abc'')) [] 0 = Inr 0"
    by simp
  have c1: "keyword_score findall_sample (Some ''abc'') (Some [''/a{99999999999}/'']) None
              = Inl (Exc ''OverflowError'' ''the repetition number is too large'')"
    by (simp add: keyword_score_def Let_def or_empty_def a del: count_kws.simps)
  have c2: "keyword_score findall_sample (Some ''abc'') (Some [''/[/'']) None = Inr 0"
    by (simp add: keyword_score_def Let_def or_empty_def b c del: count_kws.simps)
  have d: "count_kws findall_sample (''A'' @ [CHR 0x0A] @ ''page'')
             (safe_lower (Some (''A'' @ [CHR 0x0A] @ ''page''))) [''/a{99999999999}/''] 0
             = Inl (Exc ''OverflowError'' ''the repetition number is too large'')"
    by code_simp
  have k: "keyword_score findall_sample (Some (''A'' @ [CHR 0x0A] @ ''page''))
             (Some [''/a{99999999999}/'']) None
             = Inl (Exc ''OverflowError'' ''the repetition number is too large'')"
    using d by (simp add: keyword_score_def Let_def or_empty_def del: count_kws.simps)
  have s: "score_row sample_env
             (sample_profile\<lparr>p_include_keywords := Some [''/a{99999999999}/'']\<rparr>) sample_row
             = Inl (Exc ''OverflowError'' ''the repetition number is too large'')"
    using k
    by (simp add: score_row_def sample_row_def sample_env_read_text sample_page_nonempty
        sample_page_content row_signals_def Let_def sample_profile_def sample_env_def)
  have c3: "curate sample_env
              (sample_profile\<lparr>p_include_keywords := Some [''/a{99999999999}/'']\<rparr>) [sample_row]
              = Inl (Exc ''OverflowError'' ''the repetition number is too large'')"
    by (simp add: curate_def s)
  show ?thesis by (rule conjI [OF c1 conjI [OF c2 c3]])
qed

section \<open>Properties of the recency score\<close>

lemma recency_score_parsed:
  assumes "stamp \<noteq> []"
    and "fromisoformat (replace_char stamp CHR ''Z'' ''+00:00'') = Some dt"
    and "dt_aware dt"
  shows "recency_score fromisoformat now (Some stamp) h c = Inr (decayed (age_days now dt) h c)"
  using assms
  by (simp add: recency_score_def timedelta_days_def decayed_def age_days_def Let_def)

lemma recency_score_missing:
  "recency_score fromisoformat now None h c = Inr 0.2"
  "recency_score fromisoformat now (Some []) h c = Inr 0.2"
  by (simp_all add: recency_score_def)

lemma recency_score_unparseable:
  assumes "fromisoformat (replace_char stamp CHR ''Z'' ''+00:00'') = None"
  shows "recency_score fromisoformat now (Some stamp) h c = Inr 0.2"
  using assms by (simp add: recency_score_def)

lemma pow_half_nonneg: "0 \<le> pow_half x"
  by (simp add: pow_half_def)

lemma pow_half_antimono:
  assumes "x \<le> y"
  shows "pow_half y \<le> pow_half x"
proof (cases "1075 \<le> y")
  case True
  then show ?thesis by (simp add: pow_half_def)
next
  case False
  then have "\<not> 1075 \<le> x" using assms by linarith
  moreover have "(1 / 2 :: real) powr y \<le> (1 / 2) powr x"
    using assms by (intro powr_mono') simp_all
  ultimately show ?thesis using False by (simp add: pow_half_def)
qed

lemma decayed_fresh: "0 \<le> c \<Longrightarrow> decayed 0 h c = 1"
  by (simp add: decayed_def pow_half_def)

lemma decayed_half_life:
  assumes "1 \<le> h" and "real_of_int d = h" and "h \<le> c"
  shows "decayed d h c = 1 / 2"
proof -
  have "real_of_int d / max 1 h = 1" using assms by simp
  then show ?thesis using assms by (simp add: decayed_def pow_half_def)
qed

lemma decayed_antimono:
  assumes "0 \<le> d" and "d \<le> d'"
  shows "decayed d' h c \<le> decayed d h c"
proof -
  let ?H = "max 1 h"
  have H: "0 < ?H" by simp
  have "real_of_int d / ?H \<le> real_of_int d' / ?H"
    using assms H by (simp add: divide_right_mono)
  then have p: "pow_half (real_of_int d' / ?H) \<le> pow_half (real_of_int d / ?H)"
    by (rule pow_half_antimono)
  have q: "0 \<le> pow_half (real_of_int d' / ?H)" by (rule pow_half_nonneg)
  show ?thesis
  proof (cases "real_of_int d > c")
    case True
    then have "real_of_int d' > c" using assms by linarith
    with True p show ?thesis by (simp add: decayed_def)
  next
    case False
    have "decayed d' h c \<le> pow_half (real_of_int d' / ?H)"
      using q by (simp add: decayed_def mult_left_le)
    also have "\<dots> \<le> pow_half (real_of_int d / ?H)" by (rule p)
    also have "\<dots> = decayed d h c" using False by (simp add: decayed_def)
    finally show ?thesis .
  qed
qed

text \<open>
  Claim C8, as amended. For a timestamp that parses to an aware \<open>datetime\<close> whose age is
  \<open>d\<close> whole days (negative ages count as 0), \<open>recency_score\<close> is
  \<open>0.5 ** (d / max(1, half_life_days))\<close>, times 0.3 when \<open>d\<close> exceeds the hard cutoff; the
  power is 0.0 once \<open>d / max(1, half_life_days)\<close> reaches 1075. Hence age 0 scores 1.0 when
  the cutoff is not negative, age \<open>half_life_days\<close> scores 0.5 when
  \<open>1 \<le> half_life_days \<le> hard_days_cutoff\<close>, and of two timestamps the one with more whole
  days of age never scores more. A missing, empty or unparseable timestamp scores 0.2.
\<close>

theorem recency_score_decay:
  assumes "stamp \<noteq> []"
    and "fromisoformat (replace_char stamp CHR ''Z'' ''+00:00'') = Some dt"
    and "dt_aware dt"
    and "stamp' \<noteq> []"
    and "fromisoformat (replace_char stamp' CHR ''Z'' ''+00:00'') = Some dt'"
    and "dt_aware dt'"
  shows "(real_of_int (age_days now dt) / max 1 h < 1075
          \<longrightarrow> recency_score fromisoformat now (Some stamp) h c
                = Inr ((1 / 2) powr (real_of_int (age_days now dt) / max 1 h)
                       * (if real_of_int (age_days now dt) > c then 0.3 else 1)))
    \<and> (1075 \<le> real_of_int (age_days now dt) / max 1 h
          \<longrightarrow> recency_score fromisoformat now (Some stamp) h c = Inr 0)
    \<and> (age_days now dt = 0 \<and> 0 \<le> c
          \<longrightarrow> recency_score fromisoformat now (Some stamp) h c = Inr 1)
    \<and> (1 \<le> h \<and> real_of_int (age_days now dt) = h \<and> h \<le> c
          \<longrightarrow> recency_score fromisoformat now (Some stamp) h c = Inr (1 / 2))
    \<and> (age_days now dt \<le> age_days now dt'
          \<longrightarrow> (\<exists>v v'. recency_score fromisoformat now (Some stamp) h c = Inr v
                     \<and> recency_score fromisoformat now (Some stamp') h c = Inr v'
                     \<and> v' \<le> v))
    \<and> recency_score fromisoformat now None h c = Inr 0.2
    \<and> recency_score fromisoformat now (Some []) h c = Inr 0.2
    \<and> (fromisoformat (replace_char bad CHR ''Z'' ''+00:00'') = None
          \<longrightarrow> recency_score fromisoformat now (Some bad) h c = Inr 0.2)"
proof -
  have r: "recency_score fromisoformat now (Some stamp) h c = Inr (decayed (age_days now dt) h c)"
    using assms(1,2,3) by (rule recency_score_parsed)
  have r': "recency_score fromisoformat now (Some stamp') h c = Inr (decayed (age_days now dt') h c)"
    using assms(4,5,6) by (rule recency_score_parsed)
  have c1: "real_of_int (age_days now dt) / max 1 h < 1075
          \<longrightarrow> recency_score fromisoformat now (Some stamp) h c
                = Inr ((1 / 2) powr (real_of_int (age_days now dt) / max 1 h)
                       * (if real_of_int (age_days now dt) > c then 0.3 else 1))"
    unfolding r by (simp add: decayed_def pow_half_def)
  have c1': "1075 \<le> real_of_int (age_days now dt) / max 1 h
          \<longrightarrow> recency_score fromisoformat now (Some stamp) h c = Inr 0"
    unfolding r by (simp add: decayed_def pow_half_def)
  have c2: "age_days now dt = 0 \<and> 0 \<le> c
          \<longrightarrow> recency_score fromisoformat now (Some stamp) h c = Inr 1"
    unfolding r by (simp add: decayed_fresh)
  have c3: "1 \<le> h \<and> real_of_int (age_days now dt) = h \<and> h \<le> c
          \<longrightarrow> recency_score fromisoformat now (Some stamp) h c = Inr (1 / 2)"
    unfolding r using decayed_half_life [of h "age_days now dt" c] by simp
  have nonneg: "0 \<le> age_days now dt" by (simp add: age_days_def)
  have c4: "age_days now dt \<le> age_days now dt'
          \<longrightarrow> (\<exists>v v'. recency_score fromisoformat now (Some stamp) h c = Inr v
                     \<and> recency_score fromisoformat now (Some stamp') h c = Inr v'
                     \<and> v' \<le> v)"
    unfolding r r' using decayed_antimono [OF nonneg] by simp
  have c5: "recency_score fromisoformat now None h c = Inr 0.2"
    and c6: "recency_score fromisoformat now (Some []) h c = Inr 0.2"
    by (rule recency_score_missing)+
  have c7: "fromisoformat (replace_char bad CHR ''Z'' ''+00:00'') = None
          \<longrightarrow> recency_score fromisoformat now (Some bad) h c = Inr 0.2"
    using recency_score_unparseable by blast
  show ?thesis
    by (rule conjI [OF c1 conjI [OF c1' conjI [OF c2 conjI [OF c3 conjI [OF c4
          conjI [OF c5 conjI [OF c6 c7]]]]]]])
qed

lemma sample_jan01:
  "''1970-01-01T00:00:00Z'' \<noteq> []
   \<and> fromisoformat_sample (replace_char ''1970-01-01T00:00:00Z'' CHR ''Z'' ''+00:00'')
       = Some \<lparr>dt_micros = 0, dt_aware = True\<rparr>"
  by (simp add: fromisoformat_sample_def replace_char_def)

lemma sample_jan15:
  "''1970-01-15T00:00:00Z'' \<noteq> []
   \<and> fromisoformat_sample (replace_char ''1970-01-15T00:00:00Z'' CHR ''Z'' ''+00:00'')
       = Some \<lparr>dt_micros = 1209600000000, dt_aware = True\<rparr>"
  by (simp add: fromisoformat_sample_def replace_char_def)

theorem recency_score_decay_witness:
  "recency_score fromisoformat_sample 1209600000000 (Some ''1970-01-15T00:00:00Z'') 14 365 = Inr 1
   \<and> recency_score fromisoformat_sample 1209600000000 (Some ''1970-01-01T00:00:00Z'') 14 365
       = Inr (1 / 2)
   \<and> recency_score fromisoformat_sample 92880000000000 (Some ''1970-01-01T00:00:00Z'') 1 365
       = Inr 0
   \<and> recency_score fromisoformat_sample 1209600000000 (Some ''yesterday'') 14 365 = Inr 0.2"
proof -
  let ?old = "\<lparr>dt_micros = 0, dt_aware = True\<rparr>"
  let ?new = "\<lparr>dt_micros = 1209600000000, dt_aware = True\<rparr>"
  have aw: "dt_aware ?old" "dt_aware ?new" by simp_all
  have age_new: "age_days 1209600000000 ?new = 0" by (simp add: age_days_def)
  have age_old: "age_days 1209600000000 ?old = 14" by (simp add: age_days_def)
  have age_far: "age_days 92880000000000 ?old = 1075" by (simp add: age_days_def)
  have bad: "fromisoformat_sample (replace_char ''yesterday'' CHR ''Z'' ''+00:00'') = None"
    by (simp add: fromisoformat_sample_def replace_char_def)
  note fresh = recency_score_decay [OF sample_jan15 [THEN conjunct1] sample_jan15 [THEN conjunct2]
      aw(2) sample_jan01 [THEN conjunct1] sample_jan01 [THEN conjunct2] aw(1),
      of 1209600000000 14 365 "''yesterday''"]
  note aged = recency_score_decay [OF sample_jan01 [THEN conjunct1] sample_jan01 [THEN conjunct2]
      aw(1) sample_jan15 [THEN conjunct1] sample_jan15 [THEN conjunct2] aw(2),
      of 1209600000000 14 365 "''yesterday''"]
  note far = recency_score_decay [OF sample_jan01 [THEN conjunct1] sample_jan01 [THEN conjunct2]
      aw(1) sample_jan15 [THEN conjunct1] sample_jan15 [THEN conjunct2] aw(2),
      of 92880000000000 1 365 "''yesterday''"]
  have w1: "recency_score fromisoformat_sample 1209600000000 (Some ''1970-01-15T00:00:00Z'') 14 365
              = Inr 1"
    using fresh [THEN conjunct2, THEN conjunct2, THEN conjunct1] age_new by simp
  have w2: "recency_score fromisoformat_sample 1209600000000 (Some ''1970-01-01T00:00:00Z'') 14 365
              = Inr (1 / 2)"
    using aged [THEN conjunct2, THEN conjunct2, THEN conjunct2, THEN conjunct1] age_old by simp
  have w3: "recency_score fromisoformat_sample 92880000000000 (Some ''1970-01-01T00:00:00Z'') 1 365
              = Inr 0"
    using far [THEN conjunct2, THEN conjunct1] age_far by simp
  have w4: "recency_score fromisoformat_sample 1209600000000 (Some ''yesterday'') 14 365 = Inr 0.2"
    using fresh [THEN conjunct2, THEN conjunct2, THEN conjunct2, THEN conjunct2, THEN conjunct2,
        THEN conjunct2, THEN conjunct2] bad by simp
  from w1 w2 w3 w4 show ?thesis by (intro conjI)
qed

text \<open>
  Claim C8 as stated divides the age by \<open>half_life_days\<close> and has the score decrease
  strictly. With a half-life of half a day and a timestamp one day old the code scores 0.5,
  since it floors the half-life at one day, where \<open>0.5 ** (1 / 0.5)\<close> is 0.25. With a
  half-life of one day, timestamps 1075 and 1076 days old both score 0.0.
\<close>

theorem recency_score_floor_and_underflow_counterexample:
  "recency_score fromisoformat_sample 86400000000 (Some ''1970-01-01T00:00:00Z'') (1 / 2) 365
     = Inr (1 / 2)
   \<and> (1 / 2 :: real) powr (1 / (1 / 2)) = 1 / 4
   \<and> recency_score fromisoformat_sample 92880000000000 (Some ''1970-01-01T00:00:00Z'') 1 365
       = Inr 0
   \<and> recency_score fromisoformat_sample 92966400000000 (Some ''1970-01-01T00:00:00Z'') 1 365
       = Inr 0"
  by (simp add: recency_score_def timedelta_days_def power2_eq_square pow_half_def
      fromisoformat_sample_def replace_char_def)

text \<open>
  A timestamp that parses without an offset is not covered above: the subtraction from the
  aware \<open>now\<close> raises, and nothing in \<open>recency_score\<close> catches it.
\<close>

lemma recency_score_naive_raises:
  "recency_score fromisoformat_sample now (Some ''1970-01-01T00:00:00'') h c
     = Inl (Exc ''TypeError'' ''can't subtract offset-naive and offset-aware datetimes'')"
  by (simp add: recency_score_def fromisoformat_sample_def replace_char_def timedelta_days_def)

section \<open>Properties of the canonicaliser\<close>

text \<open>
  Claim C5 says that \<open>canon\<close> is idempotent. On \<open>http://a.com/a;b/\<close> it is not: the first
  pass strips the trailing slash and leaves \<open>;b\<close> in the last path segment, which the
  second pass splits off as the parameters of that segment and drops.
\<close>

theorem canon_not_idempotent:
  "canon bracket_check ''http://a.com/a;b/'' = Inr ''http://a.com/a;b''
   \<and> canon bracket_check ''http://a.com/a;b'' = Inr ''http://a.com/a''"
  by code_simp

text \<open>
  Claim C6 says that no exception leaves \<open>canon\<close>. On \<open>http://[::1\<close> the \<open>ValueError\<close> of
  \<open>urlsplit\<close> leaves it and ends \<open>unique_by_url\<close> on a list that holds such a URL, where
  \<open>norm_domain\<close> catches the same exception and returns the empty string.
\<close>

theorem canon_raises_on_unbalanced_bracket:
  "canon bracket_check ''http://[::1'' = Inl (Exc ''ValueError'' ''Invalid IPv6 URL'')
   \<and> unique_by_url bracket_check
         [[''url'' \<mapsto> ''http://a.com/x'', ''title'' \<mapsto> ''t''],
          [''url'' \<mapsto> ''http://[::1'', ''title'' \<mapsto> ''t'']]
       = Inl (Exc ''ValueError'' ''Invalid IPv6 URL'')
   \<and> norm_domain bracket_check ''http://[::1'' = []"
proof -
  have bad: "canon bracket_check ''http://[::1'' = Inl (Exc ''ValueError'' ''Invalid IPv6 URL'')"
    by code_simp
  have good: "canon bracket_check ''http://a.com/x'' = Inr ''http://a.com/x''"
    by code_simp
  have run: "unique_by_url bracket_check
         [[''url'' \<mapsto> ''http://a.com/x'', ''title'' \<mapsto> ''t''],
          [''url'' \<mapsto> ''http://[::1'', ''title'' \<mapsto> ''t'']]
       = Inl (Exc ''ValueError'' ''Invalid IPv6 URL'')"
    by (simp add: unique_by_url_def bad good)
  have dom: "norm_domain bracket_check ''http://[::1'' = []"
    by code_simp
  from bad run dom show ?thesis by (intro conjI)
qed

section \<open>Properties of the crawl orchestrator\<close>

lemma fold_done_ok:
  "fold (\<lambda>rec done. if ok rec \<and> url rec \<noteq> [] then insert (url rec) done else done) ledger S
     = S \<union> {url rec | rec. rec \<in> set ledger \<and> ok rec \<and> url rec \<noteq> []}"
  by (induction ledger arbitrary: S) auto

lemma done_ok_of_eq:
  "done_ok_of ledger = {url rec | rec. rec \<in> set ledger \<and> ok rec \<and> url rec \<noteq> []}"
  by (simp add: done_ok_of_def fold_done_ok)

lemma done_ok_of_succeeded: "u \<noteq> [] \<Longrightarrow> u \<in> done_ok_of ledger \<longleftrightarrow> u \<in> succeeded ledger"
  by (auto simp: done_ok_of_eq succeeded_def)

lemma pick_nonempty: "pick d keys = Some v \<Longrightarrow> v \<noteq> []"
  by (induction keys) (auto split: option.splits if_splits)

lemma to_item_url_nonempty: "to_item p rec = Some it \<Longrightarrow> item_url it \<noteq> []"
  by (auto simp: to_item_def Let_def simp del: pick.simps split: option.splits
      dest: pick_nonempty)

lemma collect_items_url_nonempty:
  "it \<in> set (collect_items files) \<Longrightarrow> item_url it \<noteq> []"
  by (auto simp: collect_items_def List.map_filter_def dest: to_item_url_nonempty)

lemma distinct_urls_filter_comm:
  "distinct_urls (filter P us) = filter P (distinct_urls us)"
proof (induction us rule: distinct_urls.induct)
  case 1
  then show ?case by simp
next
  case (2 u us)
  have sw: "filter (\<lambda>v. v \<noteq> u) (filter P us) = filter P (filter (\<lambda>v. v \<noteq> u) us)"
    by (induction us) auto
  show ?case
  proof (cases "P u")
    case True
    then have "distinct_urls (filter P (u # us))
                 = u # distinct_urls (filter (\<lambda>v. v \<noteq> u) (filter P us))"
      by simp
    also have "\<dots> = u # filter P (distinct_urls (filter (\<lambda>v. v \<noteq> u) us))"
      unfolding sw "2.IH" ..
    also have "\<dots> = filter P (distinct_urls (u # us))"
      using True by simp
    finally show ?thesis .
  next
    case False
    have "filter P us = filter P (filter (\<lambda>v. v \<noteq> u) us)"
      using False by (auto intro: filter_cong)
    moreover have "distinct_urls (filter P (filter (\<lambda>v. v \<noteq> u) us))
                     = filter P (distinct_urls (filter (\<lambda>v. v \<noteq> u) us))"
      by (rule "2.IH")
    ultimately show ?thesis using False by simp
  qed
qed

lemma dedup_items_urls:
  "map item_url (dedup_items seen its)
     = filter (\<lambda>u. u \<notin> seen) (distinct_urls (map item_url its))"
proof (induction its arbitrary: seen)
  case Nil
  then show ?case by simp
next
  case (Cons it its)
  show ?case
  proof (cases "item_url it \<in> seen")
    case True
    have "filter (\<lambda>u. u \<notin> seen) (distinct_urls (filter (\<lambda>v. v \<noteq> item_url it) (map item_url its)))
            = filter (\<lambda>u. u \<notin> seen) (distinct_urls (map item_url its))"
      unfolding distinct_urls_filter_comm using True
      by (auto simp: intro: filter_cong)
    then show ?thesis using True Cons.IH by simp
  next
    case False
    have "filter (\<lambda>u. u \<notin> insert (item_url it) seen) (distinct_urls (map item_url its))
            = filter (\<lambda>u. u \<notin> seen) (distinct_urls (filter (\<lambda>v. v \<noteq> item_url it) (map item_url its)))"
      unfolding distinct_urls_filter_comm by (auto intro: filter_cong)
    then show ?thesis using False Cons.IH by simp
  qed
qed

lemma load_items_urls: "map item_url (load_items files) = distinct_urls (candidate_urls files)"
  by (simp add: load_items_def dedup_items_urls candidate_urls_def)

lemma set_dedup_items: "set (dedup_items seen its) \<subseteq> set its"
  by (induction its arbitrary: seen) auto

lemma load_items_url_nonempty: "it \<in> set (load_items files) \<Longrightarrow> item_url it \<noteq> []"
  using set_dedup_items [of "{}" "collect_items files"]
  by (auto simp: load_items_def dest: collect_items_url_nonempty)

text \<open>
  The pending list is the one of the specification, over the records \<open>read_jsonl\<close> can
  read back from the ledger file.
\<close>

lemma pending_urls:
  "map item_url (pending files ledger)
     = filter (\<lambda>u. u \<notin> succeeded (read_jsonl ledger)) (distinct_urls (candidate_urls files))"
proof -
  have "map item_url (pending files ledger)
          = filter (\<lambda>u. u \<notin> done_ok_of (read_jsonl ledger)) (map item_url (load_items files))"
    by (simp add: pending_def pending_of_def filter_map comp_def)
  also have "\<dots> = filter (\<lambda>u. u \<notin> succeeded (read_jsonl ledger))
                     (map item_url (load_items files))"
    by (rule filter_cong) (auto simp: done_ok_of_succeeded dest: load_items_url_nonempty)
  finally show ?thesis by (simp add: load_items_urls)
qed

text \<open>
  Claim C1 does not hold of the code. \<open>write_jsonl\<close> appends to the ledger without looking
  at its last line, and \<open>read_jsonl\<close> skips every line that is not JSON. Take the candidates
  \<open>http://a\<close> and \<open>http://b\<close> and a crawler that fetches every page.

  When the ledger ends with the whole record of \<open>http://a\<close>, \<open>ok = true\<close>, and no newline
  after it, the run reads that record, takes \<open>http://b\<close> alone as pending, and writes the
  record of \<open>http://b\<close> onto the open line. The file then holds one line that is not JSON:
  the next run reads no record at all, takes both URLs as pending, and fetches \<open>http://a\<close>,
  which was marked \<open>ok = true\<close>, once more.

  When the ledger ends with the first half of a record, both URLs are pending; the run
  writes the record of \<open>http://a\<close> onto the open line and the record of \<open>http://b\<close> on a
  line of its own, and the next run fetches \<open>http://a\<close> again, although the run before
  fetched it and wrote its \<open>ok = true\<close> record.
\<close>

theorem resume_refetches_after_cut_off_write:
  "map url (filter ok (read_jsonl sample_ledger_open)) = [''http://a'']
   \<and> map item_url (pending sample_files sample_ledger_open) = [''http://b'']
   \<and> fst (fetch_one sample_world_up sample_item_b 2)
       = Some \<lparr>url = ''http://b'', title = [], source_file = Some ''rss_data.jsonl'',
               fetched_at = ''2024-01-01T00:00:00Z'', ok = True, error = None,
               markdown_path = Some ''app/crawl_result/pages/b6f0.md'', markdown_chars = 4\<rparr>
   \<and> run_crawl sample_world_up (\<lambda>p. p) sample_files sample_ledger_open
       = (\<lparr>whole_lines = [None], open_line = None\<rparr>, None)
   \<and> read_jsonl \<lparr>whole_lines = [None], open_line = None\<rparr> = []
   \<and> map item_url (pending sample_files \<lparr>whole_lines = [None], open_line = None\<rparr>)
       = [''http://a'', ''http://b'']
   \<and> map url (filter ok (read_jsonl (fst (run_crawl sample_world_up (\<lambda>p. p) sample_files
         \<lparr>whole_lines = [None], open_line = None\<rparr>)))) = [''http://a'', ''http://b'']
   \<and> map item_url (pending sample_files sample_ledger_cut) = [''http://a'', ''http://b'']
   \<and> map (map_option url) (whole_lines (fst (run_crawl sample_world_up (\<lambda>p. p) sample_files
         sample_ledger_cut))) = [None, Some ''http://b'']
   \<and> map item_url (pending sample_files
         (fst (run_crawl sample_world_up (\<lambda>p. p) sample_files sample_ledger_cut)))
       = [''http://a'']"
proof -
  have c1: "map url (filter ok (read_jsonl sample_ledger_open)) = [''http://a'']"
    by code_simp
  have c2: "map item_url (pending sample_files sample_ledger_open) = [''http://b'']"
    by code_simp
  have c3: "fst (fetch_one sample_world_up sample_item_b 2)
       = Some \<lparr>url = ''http://b'', title = [], source_file = Some ''rss_data.jsonl'',
               fetched_at = ''2024-01-01T00:00:00Z'', ok = True, error = None,
               markdown_path = Some ''app/crawl_result/pages/b6f0.md'', markdown_chars = 4\<rparr>"
    by code_simp
  have c4: "run_crawl sample_world_up (\<lambda>p. p) sample_files sample_ledger_open
       = (\<lparr>whole_lines = [None], open_line = None\<rparr>, None)"
    by code_simp
  have c5: "read_jsonl \<lparr>whole_lines = [None], open_line = None\<rparr> = []"
    by code_simp
  have c6: "map item_url (pending sample_files \<lparr>whole_lines = [None], open_line = None\<rparr>)
       = [''http://a'', ''http://b'']"
    by code_simp
  have c7: "map url (filter ok (read_jsonl (fst (run_crawl sample_world_up (\<lambda>p. p) sample_files
         \<lparr>whole_lines = [None], open_line = None\<rparr>)))) = [''http://a'', ''http://b'']"
    by code_simp
  have c8: "map item_url (pending sample_files sample_ledger_cut) = [''http://a'', ''http://b'']"
    by code_simp
  have c9: "map (map_option url) (whole_lines (fst (run_crawl sample_world_up (\<lambda>p. p) sample_files
         sample_ledger_cut))) = [None, Some ''http://b'']"
    by code_simp
  have c10: "map item_url (pending sample_files
         (fst (run_crawl sample_world_up (\<lambda>p. p) sample_files sample_ledger_cut)))
       = [''http://a'']"
    by code_simp
  show ?thesis
    by (rule conjI [OF c1 conjI [OF c2 conjI [OF c3 conjI [OF c4 conjI [OF c5 conjI [OF c6
          conjI [OF c7 conjI [OF c8 conjI [OF c9 c10]]]]]]]]])
qed


subsection \<open>The retry loop\<close>

lemma attempt_once_raised:
  assumes "arun w (url out) k = Raised e"
  shows "attempt_once w out k = Inl e"
  using assms by (simp add: attempt_once_def)

lemma attempt_once_empty:
  assumes "arun w (url out) k = Markdown m"
    and "strip (case m of None \<Rightarrow> [] | Some s \<Rightarrow> s) = []"
  shows "attempt_once w out k = Inl (Exc ''RuntimeError'' ''Empty markdown'')"
  using assms by (simp add: attempt_once_def)

lemma attempt_once_write_raised:
  assumes "arun w (url out) k = Markdown m"
    and "strip (case m of None \<Rightarrow> [] | Some s \<Rightarrow> s) \<noteq> []"
    and "write_page w (url out) k = Some e"
  shows "attempt_once w out k = Inl e"
  using assms by (simp add: attempt_once_def Let_def)















end
